theory Spec2Isabelle
  imports Main
begin

section \<open>JavaScript strings and tokens\<close>

text \<open>
  The payloads of the two token kinds (\<^verbatim>\<open>JWTPayload\<close> and \<^verbatim>\<open>RefreshTokenPayload\<close> of
  lib/jwt). A selector applied to the other kind is unspecified, as reading a missing
  property is in the source after its unchecked cast.
\<close>

datatype payload =
    JWTPayload (userId: string) (email: string) (role: "string option")
  | RefreshTokenPayload (userId: string) (tokenId: string)

text \<open>
  Modelled from the spec: the signing primitive of the jsonwebtoken package, which is not
  part of the repository. A string is a list of symbols; a symbol is an ordinary character
  or one whole signed token \<open>Jws body iat exp key\<close>, standing for the text that
  \<^verbatim>\<open>jwt.sign\<close> produces for that body, those two timestamps (in seconds) and that
  signing key. The signature is perfect: the text verifies under \<open>key\<close> and under
  no other secret, and no text built from ordinary characters verifies at all.
\<close>

datatype jschar = Chr char | Jws payload int int string

type_synonym jsstring = "jschar list"

definition str :: "string \<Rightarrow> jsstring" where
  "str s = map Chr s"

text \<open>\<^verbatim>\<open>s.split(sep)[0]\<close> and \<^verbatim>\<open>s.split(sep)[1]\<close> for a one-character separator.\<close>

definition split0 :: "jschar \<Rightarrow> jsstring \<Rightarrow> jsstring" where
  "split0 sep s = takeWhile (\<lambda>c. c \<noteq> sep) s"

definition split1 :: "jschar \<Rightarrow> jsstring \<Rightarrow> jsstring option" where
  "split1 sep s =
     (case dropWhile (\<lambda>c. c \<noteq> sep) s of
        [] \<Rightarrow> None
      | _ # rest \<Rightarrow> Some (takeWhile (\<lambda>c. c \<noteq> sep) rest))"

text \<open>
  \<^verbatim>\<open>String.prototype.trim\<close>. A character stands for a code unit below 256; the white
  space and line terminators of the language in that range are U+0009 to U+000D, U+0020
  and U+00A0.
\<close>

definition is_space :: "jschar \<Rightarrow> bool" where
  "is_space c =
     (c \<in> set (map Chr [CHR 0x09, CHR 0x0A, CHR 0x0B, CHR 0x0C, CHR 0x0D, CHR 0x20, CHR 0xA0]))"

definition trim :: "jsstring \<Rightarrow> jsstring" where
  "trim s = rev (dropWhile is_space (rev (dropWhile is_space s)))"

fun startsWith :: "'a list \<Rightarrow> 'a list \<Rightarrow> bool" where
  "startsWith s [] = True"
| "startsWith [] (p # ps) = False"
| "startsWith (c # cs) (p # ps) = (c = p \<and> startsWith cs ps)"

fun includes_str :: "'a list \<Rightarrow> 'a list \<Rightarrow> bool" where
  "includes_str [] sub = (sub = [])"
| "includes_str (c # cs) sub = (startsWith (c # cs) sub \<or> includes_str cs sub)"

text \<open>\<^verbatim>\<open>s.split(",")\<close> on an ordinary string: never the empty list.\<close>

fun split_comma :: "string \<Rightarrow> string list" where
  "split_comma [] = [[]]"
| "split_comma (c # cs) =
     (if c = CHR '','' then [] # split_comma cs
      else (case split_comma cs of
              [] \<Rightarrow> [[c]]
            | w # ws \<Rightarrow> (c # w) # ws))"

text \<open>\<^verbatim>\<open>Number.prototype.toString\<close> on an integer, in decimal.\<close>

fun digits :: "nat \<Rightarrow> string" where
  "digits n =
     (if n < 10 then [''0123456789'' ! n]
      else digits (n div 10) @ [''0123456789'' ! (n mod 10)])"

definition toString :: "int \<Rightarrow> string" where
  "toString i = (if i < 0 then CHR ''-'' # digits (nat (- i)) else digits (nat i))"

section \<open>The LRU cache\<close>

text \<open>
  Modelled from the spec: the lru-cache package, which is not part of the repository
  (spec 4.2: capacity-bounded, combined with TTL expiry; at capacity the
  least-recently-touched entry is evicted to admit a new one). The entries are kept most
  recently used first, each with the time it was last written. Times are milliseconds.
\<close>

record lru_options =
  max_entries :: nat
  ttl :: int

type_synonym ('k, 'v) LRUCache = "('k \<times> 'v \<times> int) list"

definition lru_stale :: "lru_options \<Rightarrow> int \<Rightarrow> int \<Rightarrow> bool" where
  "lru_stale opts now start = (ttl opts \<noteq> 0 \<and> now - start > ttl opts)"

definition lru_delete :: "'k \<Rightarrow> ('k, 'v) LRUCache \<Rightarrow> ('k, 'v) LRUCache" where
  "lru_delete k c = filter (\<lambda>e. fst e \<noteq> k) c"

text \<open>\<^verbatim>\<open>has\<close>: the key is there and not stale; the cache is not touched.\<close>

definition lru_has :: "lru_options \<Rightarrow> int \<Rightarrow> ('k, 'v) LRUCache \<Rightarrow> 'k \<Rightarrow> bool" where
  "lru_has opts now c k =
     (case map_of c k of
        None \<Rightarrow> False
      | Some (v, start) \<Rightarrow> \<not> lru_stale opts now start)"

text \<open>\<^verbatim>\<open>get\<close>: a stale entry is deleted and reads as absent; a live one becomes the most
  recently used.\<close>

definition lru_get ::
  "lru_options \<Rightarrow> int \<Rightarrow> ('k, 'v) LRUCache \<Rightarrow> 'k \<Rightarrow> 'v option \<times> ('k, 'v) LRUCache" where
  "lru_get opts now c k =
     (case map_of c k of
        None \<Rightarrow> (None, c)
      | Some (v, start) \<Rightarrow>
          if lru_stale opts now start then (None, lru_delete k c)
          else (Some v, (k, v, start) # lru_delete k c))"

text \<open>\<^verbatim>\<open>set\<close>: an existing key is overwritten, its age reset; a new key evicts the least
  recently used entry when the cache is full.\<close>

definition lru_set ::
  "lru_options \<Rightarrow> int \<Rightarrow> ('k, 'v) LRUCache \<Rightarrow> 'k \<Rightarrow> 'v \<Rightarrow> ('k, 'v) LRUCache" where
  "lru_set opts now c k v =
     (if k \<in> fst ` set c then (k, v, now) # lru_delete k c
      else (k, v, now) # (if max_entries opts \<le> length c then butlast c else c))"

text \<open>The value stored under a key, whatever its age (for stating properties only).\<close>

definition stored :: "('k, 'v) LRUCache \<Rightarrow> 'k \<Rightarrow> 'v option" where
  "stored c k = map_option fst (map_of c k)"

section \<open>Requests and responses\<close>

text \<open>
  A request holds the header values as they were sent, under lower-case names
  (\<^verbatim>\<open>Headers.get\<close> ignores case). \<^verbatim>\<open>request.headers.get(name)\<close> returns the value
  without its leading and trailing HTTP white space (tab, line feed, carriage return,
  space), which the \<^verbatim>\<open>Headers\<close> object strips from every value it stores.
\<close>

record request =
  req_headers :: "string \<rightharpoonup> jsstring"
  pathname :: string

definition http_space :: "jschar \<Rightarrow> bool" where
  "http_space c = (c \<in> set (map Chr [CHR 0x09, CHR 0x0A, CHR 0x0D, CHR 0x20]))"

definition normalize :: "jsstring \<Rightarrow> jsstring" where
  "normalize v = rev (dropWhile http_space (rev (dropWhile http_space v)))"

definition headers_get :: "request \<Rightarrow> string \<Rightarrow> jsstring option" where
  "headers_get request name = map_option normalize (req_headers request name)"

text \<open>A header value: a text, or \<^verbatim>\<open>new Date(ms).toISOString()\<close> kept as its time value.\<close>

datatype hval = Text string | IsoDate int

text \<open>
  The JSON body of a response, as far as the gate produces it: none
  (\<^verbatim>\<open>NextResponse.next()\<close>), an \<^verbatim>\<open>error\<close> message, or a token pair.
\<close>

datatype json_body = Next | ErrorJson string | TokensJson jsstring jsstring

record response =
  status :: nat
  body :: json_body
  resp_headers :: "(string \<times> hval) list"

definition json_error :: "string \<Rightarrow> nat \<Rightarrow> response" where
  "json_error msg code = \<lparr>status = code, body = ErrorJson msg, resp_headers = []\<rparr>"

section \<open>Rate limiting (lib/security)\<close>

record rate_window =
  count :: int
  resetTime :: int

definition rateLimitCache_options :: lru_options where
  "rateLimitCache_options = \<lparr>max_entries = 10000, ttl = 1000 * 60 * 15\<rparr>"

record rate_limit =
  windowMs :: int
  max_limit :: int

datatype limit_type = auth | api | strict

fun RATE_LIMITS :: "limit_type \<Rightarrow> rate_limit" where
  "RATE_LIMITS auth = \<lparr>windowMs = 15 * 60 * 1000, max_limit = 5\<rparr>"
| "RATE_LIMITS api = \<lparr>windowMs = 15 * 60 * 1000, max_limit = 100\<rparr>"
| "RATE_LIMITS strict = \<lparr>windowMs = 15 * 60 * 1000, max_limit = 10\<rparr>"

fun type_name :: "limit_type \<Rightarrow> string" where
  "type_name auth = ''auth''"
| "type_name api = ''api''"
| "type_name strict = ''strict''"

record rate_limit_result =
  success :: bool
  message :: "string option"
  headers :: "(string \<times> hval) list option"

text \<open>
  \<^verbatim>\<open>request.headers.get(name)\<close> where the source tests the result for truth: a header
  that is missing or empty is falsy.
\<close>

definition get_truthy :: "request \<Rightarrow> string \<Rightarrow> jsstring option" where
  "get_truthy request name =
     (case headers_get request name of
        None \<Rightarrow> None
      | Some s \<Rightarrow> if s = [] then None else Some s)"

definition getClientIP :: "request \<Rightarrow> jsstring" where
  "getClientIP request =
     (case get_truthy request ''x-forwarded-for'' of
        Some forwarded \<Rightarrow> trim (split0 (Chr CHR '','') forwarded)
      | None \<Rightarrow>
          (case get_truthy request ''x-real-ip'' of
             Some realIP \<Rightarrow> realIP
           | None \<Rightarrow>
               (case get_truthy request ''cf-connecting-ip'' of
                  Some cfConnectingIP \<Rightarrow> cfConnectingIP
                | None \<Rightarrow> str ''unknown'')))"

definition rate_key :: "request \<Rightarrow> limit_type \<Rightarrow> jsstring" where
  "rate_key request type = str (type_name type) @ str '':'' @ getClientIP request"

text \<open>\<^verbatim>\<open>Math.ceil(a / 1000)\<close> on integers.\<close>

definition ceil_div1000 :: "int \<Rightarrow> int" where
  "ceil_div1000 a = - ((- a) div 1000)"

definition rateLimit ::
  "request \<Rightarrow> limit_type \<Rightarrow> int \<Rightarrow> (jsstring, rate_window) LRUCache \<Rightarrow>
     rate_limit_result \<times> (jsstring, rate_window) LRUCache" where
  "rateLimit request type now cache =
     (let key = rate_key request type;
          limit = RATE_LIMITS type;
          (current, cache1) = lru_get rateLimitCache_options now cache key;
          fresh = (\<lparr>success = True, message = None, headers = None\<rparr>,
                   lru_set rateLimitCache_options now cache1 key
                     \<lparr>count = 1, resetTime = now + windowMs limit\<rparr>)
      in case current of
           None \<Rightarrow> fresh
         | Some cur \<Rightarrow>
             if resetTime cur < now then fresh
             else if count cur \<ge> max_limit limit then
               (\<lparr>success = False, message = Some ''Too many requests'',
                 headers = Some
                   [(''X-RateLimit-Limit'', Text (toString (max_limit limit))),
                    (''X-RateLimit-Remaining'', Text ''0''),
                    (''X-RateLimit-Reset'', IsoDate (resetTime cur)),
                    (''Retry-After'', Text (toString (ceil_div1000 (resetTime cur - now))))]\<rparr>,
                cache1)
             else
               (let cur' = cur\<lparr>count := count cur + 1\<rparr>
                in (\<lparr>success = True, message = None,
                     headers = Some
                       [(''X-RateLimit-Limit'', Text (toString (max_limit limit))),
                        (''X-RateLimit-Remaining'',
                           Text (toString (max_limit limit - count cur'))),
                        (''X-RateLimit-Reset'', IsoDate (resetTime cur'))]\<rparr>,
                    lru_set rateLimitCache_options now cache1 key cur')))"


definition header :: "rate_limit_result \<Rightarrow> string \<Rightarrow> hval option" where
  "header r name = (case headers r of None \<Rightarrow> None | Some hs \<Rightarrow> map_of hs name)"

text \<open>Successive calls of \<open>rateLimit\<close> by one client, at the given times.\<close>

fun rateLimit_calls ::
  "request \<Rightarrow> limit_type \<Rightarrow> int list \<Rightarrow> (jsstring, rate_window) LRUCache \<Rightarrow>
     rate_limit_result list \<times> (jsstring, rate_window) LRUCache" where
  "rateLimit_calls request type [] cache = ([], cache)"
| "rateLimit_calls request type (now # nows) cache =
     (let (r, cache1) = rateLimit request type now cache;
          (rs, cache2) = rateLimit_calls request type nows cache1
      in (r # rs, cache2))"

section \<open>Configuration and shared state\<close>

text \<open>
  \<^verbatim>\<open>process.env\<close>. The two expiry settings are kept as the time span in seconds that the
  jsonwebtoken package reads from the configured text (\<^verbatim>\<open>"15m"\<close> is 900).
\<close>

record env =
  JWT_SECRET :: "string option"
  JWT_EXPIRES_IN :: "int option"
  JWT_REFRESH_SECRET :: "string option"
  JWT_REFRESH_EXPIRES_IN :: "int option"
  ALLOWED_ORIGINS :: "string option"

text \<open>A variable that is unset or empty is falsy.\<close>

definition configured :: "string option \<Rightarrow> string option" where
  "configured v = (case v of None \<Rightarrow> None | Some s \<Rightarrow> if s = [] then None else Some s)"

text \<open>
  The module-level caches and the console. Of a security event only its name and its
  \<^verbatim>\<open>reason\<close> detail (empty when it has none) are kept, latest first.
\<close>

record state =
  rateLimitCache :: "(jsstring, rate_window) LRUCache"
  blacklistedTokens :: "(jsstring, bool) LRUCache"
  blacklistedRefreshTokens :: "(jsstring, bool) LRUCache"
  securityLog :: "(string \<times> string) list"

definition logSecurityEvent :: "string \<Rightarrow> string \<Rightarrow> state \<Rightarrow> state" where
  "logSecurityEvent event reason st = st\<lparr>securityLog := (event, reason) # securityLog st\<rparr>"

section \<open>Tokens (lib/jwt)\<close>

datatype error =
    Error string
  | TokenBlacklistedError
  | RefreshTokenBlacklistedError
  | TokenExpiredError
  | JsonWebTokenError

text \<open>What \<^verbatim>\<open>jwt.verify\<close> returns: the signed payload with its two timestamps.\<close>

record decoded =
  signed_payload :: payload
  iat :: int
  exp :: int

definition blacklistedTokens_options :: lru_options where
  "blacklistedTokens_options = \<lparr>max_entries = 1000, ttl = 1000 * 60 * 60 * 24\<rparr>"

definition blacklistedRefreshTokens_options :: lru_options where
  "blacklistedRefreshTokens_options = \<lparr>max_entries = 1000, ttl = 1000 * 60 * 60 * 24 * 7\<rparr>"

text \<open>
  Modelled from the spec: \<^verbatim>\<open>jwt.sign\<close> and \<^verbatim>\<open>jwt.verify\<close> of the jsonwebtoken package.
  Signing stamps \<open>iat\<close> with the current second and \<open>exp\<close> with \<open>iat\<close> plus the time
  span. Verifying fails with \<open>JsonWebTokenError\<close> on a text that is not a token signed
  with the given secret, then with \<open>TokenExpiredError\<close> once the current second has
  reached \<open>exp\<close>.
\<close>

definition jwt_sign :: "payload \<Rightarrow> string \<Rightarrow> int \<Rightarrow> int \<Rightarrow> jsstring" where
  "jwt_sign p secret expiresIn now = [Jws p (now div 1000) (now div 1000 + expiresIn) secret]"

fun jwt_verify :: "jsstring \<Rightarrow> string \<Rightarrow> int \<Rightarrow> error + decoded" where
  "jwt_verify [Jws p i e key] secret now =
     (if key \<noteq> secret then Inl JsonWebTokenError
      else if e \<le> now div 1000 then Inl TokenExpiredError
      else Inr \<lparr>signed_payload = p, iat = i, exp = e\<rparr>)"
| "jwt_verify token secret now = Inl JsonWebTokenError"

definition access_expiresIn :: "env \<Rightarrow> int" where
  "access_expiresIn e = (case JWT_EXPIRES_IN e of None \<Rightarrow> 15 * 60 | Some n \<Rightarrow> n)"

definition refresh_expiresIn :: "env \<Rightarrow> int" where
  "refresh_expiresIn e = (case JWT_REFRESH_EXPIRES_IN e of None \<Rightarrow> 7 * 24 * 60 * 60 | Some n \<Rightarrow> n)"

definition generateAccessToken :: "env \<Rightarrow> int \<Rightarrow> payload \<Rightarrow> error + jsstring" where
  "generateAccessToken e now p =
     (case configured (JWT_SECRET e) of
        None \<Rightarrow> Inl (Error ''JWT_SECRET environment variable is not defined'')
      | Some secret \<Rightarrow> Inr (jwt_sign p secret (access_expiresIn e) now))"

definition generateRefreshToken :: "env \<Rightarrow> int \<Rightarrow> payload \<Rightarrow> error + jsstring" where
  "generateRefreshToken e now p =
     (case configured (JWT_REFRESH_SECRET e) of
        None \<Rightarrow> Inl (Error ''JWT_REFRESH_SECRET environment variable is not defined'')
      | Some secret \<Rightarrow> Inr (jwt_sign p secret (refresh_expiresIn e) now))"

definition verifyAccessToken :: "env \<Rightarrow> int \<Rightarrow> state \<Rightarrow> jsstring \<Rightarrow> error + decoded" where
  "verifyAccessToken e now st token =
     (case configured (JWT_SECRET e) of
        None \<Rightarrow> Inl (Error ''JWT_SECRET environment variable is not defined'')
      | Some secret \<Rightarrow>
          if lru_has blacklistedTokens_options now (blacklistedTokens st) token
          then Inl TokenBlacklistedError
          else jwt_verify token secret now)"

definition verifyRefreshToken :: "env \<Rightarrow> int \<Rightarrow> state \<Rightarrow> jsstring \<Rightarrow> error + decoded" where
  "verifyRefreshToken e now st token =
     (case configured (JWT_REFRESH_SECRET e) of
        None \<Rightarrow> Inl (Error ''JWT_REFRESH_SECRET environment variable is not defined'')
      | Some secret \<Rightarrow>
          if lru_has blacklistedRefreshTokens_options now (blacklistedRefreshTokens st) token
          then Inl RefreshTokenBlacklistedError
          else jwt_verify token secret now)"

definition blacklistToken :: "int \<Rightarrow> state \<Rightarrow> jsstring \<Rightarrow> state" where
  "blacklistToken now st token =
     st\<lparr>blacklistedTokens :=
          lru_set blacklistedTokens_options now (blacklistedTokens st) token True\<rparr>"

definition blacklistRefreshToken :: "int \<Rightarrow> state \<Rightarrow> jsstring \<Rightarrow> state" where
  "blacklistRefreshToken now st token =
     st\<lparr>blacklistedRefreshTokens :=
          lru_set blacklistedRefreshTokens_options now (blacklistedRefreshTokens st) token True\<rparr>"

text \<open>
  \<open>tid\<close> is the draw of \<^verbatim>\<open>Math.random().toString(36).substring(2)\<close>, an input
  here. The access token is generated first, so its error wins.
\<close>

definition generateTokenPair ::
  "env \<Rightarrow> int \<Rightarrow> string \<Rightarrow> string \<Rightarrow> string \<Rightarrow> error + (jsstring \<times> jsstring)" where
  "generateTokenPair e now tid uid mail =
     (case generateAccessToken e now (JWTPayload uid mail None) of
        Inl err \<Rightarrow> Inl err
      | Inr accessToken \<Rightarrow>
          (case generateRefreshToken e now (RefreshTokenPayload uid tid) of
             Inl err \<Rightarrow> Inl err
           | Inr refreshToken \<Rightarrow> Inr (accessToken, refreshToken)))"

definition isTokenBlacklisted :: "int \<Rightarrow> state \<Rightarrow> jsstring \<Rightarrow> bool" where
  "isTokenBlacklisted now st token =
     lru_has blacklistedTokens_options now (blacklistedTokens st) token"

definition isRefreshTokenBlacklisted :: "int \<Rightarrow> state \<Rightarrow> jsstring \<Rightarrow> bool" where
  "isRefreshTokenBlacklisted now st token =
     lru_has blacklistedRefreshTokens_options now (blacklistedRefreshTokens st) token"

section \<open>The security gate (lib/security, lib/auth)\<close>

definition SECURITY_HEADERS :: "(string \<times> hval) list" where
  "SECURITY_HEADERS =
     [(''X-Frame-Options'', Text ''DENY''),
      (''X-Content-Type-Options'', Text ''nosniff''),
      (''X-XSS-Protection'', Text ''1; mode=block''),
      (''Referrer-Policy'', Text ''strict-origin-when-cross-origin''),
      (''Permissions-Policy'', Text ''camera=(), microphone=(), geolocation=()''),
      (''Strict-Transport-Security'', Text ''max-age=31536000; includeSubDomains''),
      (''Content-Security-Policy'',
         Text (''default-src 'self'; script-src 'self' 'unsafe-eval' 'unsafe-inline'; '' @
               ''style-src 'self' 'unsafe-inline'; img-src 'self' data: https:; '' @
               ''font-src 'self' data:; connect-src 'self' https:; frame-ancestors 'none';''))]"

text \<open>\<^verbatim>\<open>process.env.ALLOWED_ORIGINS?.split(",") || ["http://localhost:3000"]\<close>: the
  split of a set variable is a non-empty array, hence truthy, also when the variable is
  empty.\<close>

definition allowedOrigins :: "env \<Rightarrow> string list" where
  "allowedOrigins e =
     (case ALLOWED_ORIGINS e of
        None \<Rightarrow> [''http://localhost:3000'']
      | Some s \<Rightarrow> split_comma s)"

definition validateOrigin :: "env \<Rightarrow> request \<Rightarrow> bool" where
  "validateOrigin e request =
     (case get_truthy request ''origin'' of
        None \<Rightarrow> True
      | Some origin \<Rightarrow> origin \<in> set (map str (allowedOrigins e)))"

definition securityMiddleware :: "env \<Rightarrow> request \<Rightarrow> response" where
  "securityMiddleware e request =
     (if \<not> validateOrigin e request then json_error ''Invalid origin'' 403
      else \<lparr>status = 200, body = Next, resp_headers = SECURITY_HEADERS\<rparr>)"

definition isAuthEndpoint :: "string \<Rightarrow> bool" where
  "isAuthEndpoint url =
     (includes_str url ''/auth/'' \<and>
      (includes_str url ''/login'' \<or> includes_str url ''/signup'' \<or>
       includes_str url ''/logout'' \<or> includes_str url ''/refresh''))"

definition authMiddleware ::
  "request \<Rightarrow> int \<Rightarrow> (jsstring, rate_window) LRUCache \<Rightarrow>
     response \<times> (jsstring, rate_window) LRUCache" where
  "authMiddleware request now cache =
     (case get_truthy request ''authorization'' of
        None \<Rightarrow> (json_error ''Authentication required'' 401, cache)
      | Some authHeader \<Rightarrow>
          if \<not> startsWith authHeader (str ''Bearer '')
          then (json_error ''Authentication required'' 401, cache)
          else
            (let rateLimitType = (if isAuthEndpoint (pathname request) then auth else api);
                 (rateLimitResult, cache1) = rateLimit request rateLimitType now cache
             in if \<not> success rateLimitResult then
                  (json_error
                     (if isAuthEndpoint (pathname request)
                      then ''Too many authentication attempts'' else ''Too many requests'')
                     429,
                   cache1)
                else (\<lparr>status = 200, body = Next, resp_headers = []\<rparr>, cache1)))"

text \<open>\<^verbatim>\<open>authHeader && authHeader.split(" ")[1]\<close>, tested for truth.\<close>

definition bearer_token :: "request \<Rightarrow> jsstring option" where
  "bearer_token request =
     (case get_truthy request ''authorization'' of
        None \<Rightarrow> None
      | Some authHeader \<Rightarrow>
          (case split1 (Chr CHR '' '') authHeader of
             None \<Rightarrow> None
           | Some token \<Rightarrow> if token = [] then None else Some token))"

definition authenticateToken ::
  "env \<Rightarrow> int \<Rightarrow> state \<Rightarrow> request \<Rightarrow> (response + decoded) \<times> state" where
  "authenticateToken e now st request =
     (case bearer_token request of
        None \<Rightarrow>
          (Inl (json_error ''Access token required'' 401),
           logSecurityEvent ''authentication_failed'' ''no_token'' st)
      | Some token \<Rightarrow>
          (case verifyAccessToken e now st token of
             Inr user \<Rightarrow> (Inr user, logSecurityEvent ''authentication_successful'' [] st)
           | Inl TokenBlacklistedError \<Rightarrow>
               (Inl (json_error ''Token has been revoked. Please login again.'' 401),
                logSecurityEvent ''authentication_failed'' ''token_blacklisted'' st)
           | Inl err \<Rightarrow>
               (Inl (json_error ''Invalid or expired token'' 401),
                logSecurityEvent ''authentication_failed'' ''invalid_token'' st)))"

text \<open>The wrapped handler is a parameter: it receives the request with the verified
  user attached.\<close>

definition withAuth ::
  "(decoded \<Rightarrow> request \<Rightarrow> state \<Rightarrow> response \<times> state) \<Rightarrow>
     env \<Rightarrow> int \<Rightarrow> state \<Rightarrow> request \<Rightarrow> response \<times> state" where
  "withAuth handler e now st request =
     (let (securityAuthResponse, cache1) = authMiddleware request now (rateLimitCache st);
          st1 = st\<lparr>rateLimitCache := cache1\<rparr>
      in if status securityAuthResponse \<noteq> 200 then (securityAuthResponse, st1)
         else
           (case authenticateToken e now st1 request of
              (Inl errorResponse, st2) \<Rightarrow> (errorResponse, st2)
            | (Inr user, st2) \<Rightarrow> handler user request st2))"

section \<open>The refresh route (api/auth/refresh)\<close>

record user_doc =
  doc_id :: string
  doc_email :: string

text \<open>
  \<open>findUserById\<close> stands for \<^verbatim>\<open>UserService.findUserById\<close>, a query of the document
  store: \<open>Inl\<close> is an exception it throws, \<open>Inr None\<close> a user that is not there.
  \<open>tid\<close> is the random draw of \<open>generateTokenPair\<close>. Every exception that is not
  handled on the spot reaches the outer \<^verbatim>\<open>catch\<close> and becomes the 500 response.
\<close>

definition internal_error :: "state \<Rightarrow> response \<times> state" where
  "internal_error st =
     (json_error ''Internal server error'' 500, logSecurityEvent ''refresh_token_error'' [] st)"

definition GETHandler ::
  "env \<Rightarrow> (string \<Rightarrow> string + user_doc option) \<Rightarrow> string \<Rightarrow> int \<Rightarrow> state \<Rightarrow> request \<Rightarrow>
     response \<times> state" where
  "GETHandler e findUserById tid now st request =
     (let securityResponse = securityMiddleware e request
      in if status securityResponse \<noteq> 200 then (securityResponse, st)
         else
           (let (rateLimitResult, cache1) = rateLimit request auth now (rateLimitCache st);
                st1 = st\<lparr>rateLimitCache := cache1\<rparr>
            in if \<not> success rateLimitResult then
                 (json_error ''Too many refresh attempts. Please try again later.'' 429,
                  logSecurityEvent ''rate_limit_exceeded'' [] st1)
               else
                 (case get_truthy request ''x-refresh-token'' of
                    None \<Rightarrow>
                      (json_error ''Refresh token required'' 401,
                       logSecurityEvent ''refresh_token_missing'' [] st1)
                  | Some refreshToken \<Rightarrow>
                      (case verifyRefreshToken e now st1 refreshToken of
                         Inl RefreshTokenBlacklistedError \<Rightarrow>
                           (json_error ''Refresh token has been revoked. Please login again.'' 401,
                            logSecurityEvent ''refresh_token_revoked'' [] st1)
                       | Inl TokenExpiredError \<Rightarrow>
                           (json_error ''Refresh token has expired. Please login again.'' 401,
                            logSecurityEvent ''refresh_token_expired'' [] st1)
                       | Inl JsonWebTokenError \<Rightarrow>
                           (json_error ''Invalid refresh token'' 401,
                            logSecurityEvent ''refresh_token_invalid'' [] st1)
                       | Inl err \<Rightarrow> internal_error st1
                       | Inr user \<Rightarrow>
                           (case findUserById (userId (signed_payload user)) of
                              Inl err \<Rightarrow> internal_error st1
                            | Inr None \<Rightarrow>
                                (json_error ''Invalid refresh token'' 401,
                                 logSecurityEvent ''refresh_user_not_found'' [] st1)
                            | Inr (Some userDoc) \<Rightarrow>
                                (let st2 = blacklistRefreshToken now st1 refreshToken
                                 in case generateTokenPair e now tid
                                           (userId (signed_payload user)) (doc_email userDoc) of
                                      Inl err \<Rightarrow> internal_error st2
                                    | Inr (accessToken, newRefreshToken) \<Rightarrow>
                                        (\<lparr>status = 200,
                                          body = TokensJson accessToken newRefreshToken,
                                          resp_headers =
                                            (case headers rateLimitResult of
                                               None \<Rightarrow> []
                                             | Some hs \<Rightarrow> hs)\<rparr>,
                                         logSecurityEvent ''token_refreshed'' [] st2)))))))"

section \<open>Notions used in the statements\<close>

definition has_bearer_prefix :: "request \<Rightarrow> bool" where
  "has_bearer_prefix request =
     (case get_truthy request ''authorization'' of
        None \<Rightarrow> False
      | Some authHeader \<Rightarrow> startsWith authHeader (str ''Bearer ''))"

definition route_limit_type :: "request \<Rightarrow> limit_type" where
  "route_limit_type request = (if isAuthEndpoint (pathname request) then auth else api)"

definition admitted :: "env \<Rightarrow> int \<Rightarrow> state \<Rightarrow> request \<Rightarrow> bool" where
  "admitted e now st request =
     (validateOrigin e request \<and> success (fst (rateLimit request auth now (rateLimitCache st))))"

definition refresh_lookup ::
  "env \<Rightarrow> (string \<Rightarrow> string + user_doc option) \<Rightarrow> int \<Rightarrow> state \<Rightarrow> request \<Rightarrow>
     (jsstring \<times> decoded \<times> user_doc) option" where
  "refresh_lookup e findUserById now st request =
     (case get_truthy request ''x-refresh-token'' of
        None \<Rightarrow> None
      | Some refreshToken \<Rightarrow>
          (case verifyRefreshToken e now st refreshToken of
             Inl err \<Rightarrow> None
           | Inr user \<Rightarrow>
               (case findUserById (userId (signed_payload user)) of
                  Inl err \<Rightarrow> None
                | Inr None \<Rightarrow> None
                | Inr (Some userDoc) \<Rightarrow> Some (refreshToken, user, userDoc))))"

text \<open>Successive revocations of access tokens, each with its time.\<close>

fun revoke_all :: "(int \<times> jsstring) list \<Rightarrow> state \<Rightarrow> state" where
  "revoke_all [] st = st"
| "revoke_all ((now, token) # rest) st = revoke_all rest (blacklistToken now st token)"

section \<open>Sample inputs\<close>

definition anonymous_request :: request where
  "anonymous_request = \<lparr>req_headers = Map.empty, pathname = ''/api/auth/refresh''\<rparr>"

definition window_cache :: "int \<Rightarrow> int \<Rightarrow> (jsstring, rate_window) LRUCache" where
  "window_cache n r = [(rate_key anonymous_request auth, \<lparr>count = n, resetTime = r\<rparr>, 0)]"

definition sample_env :: env where
  "sample_env =
     \<lparr>JWT_SECRET = Some ''access-secret'', JWT_EXPIRES_IN = None,
      JWT_REFRESH_SECRET = Some ''refresh-secret'', JWT_REFRESH_EXPIRES_IN = None,
      ALLOWED_ORIGINS = None\<rparr>"

definition empty_state :: state where
  "empty_state =
     \<lparr>rateLimitCache = [], blacklistedTokens = [], blacklistedRefreshTokens = [],
      securityLog = []\<rparr>"

definition sample_access_token :: jsstring where
  "sample_access_token =
     [Jws (JWTPayload ''u1'' ''a@example.com'' None) 0 900 ''access-secret'']"

definition expired_refresh_token :: jsstring where
  "expired_refresh_token = [Jws (RefreshTokenPayload ''u1'' ''t1'') 0 5 ''refresh-secret'']"

definition garbage_revoked :: state where
  "garbage_revoked =
     blacklistRefreshToken 0 (blacklistToken 0 empty_state (str ''garbage'')) (str ''garbage'')"

definition evil_request :: request where
  "evil_request =
     \<lparr>req_headers = [''origin'' \<mapsto> str ''https://evil.example''], pathname = ''/api/bookings''\<rparr>"

definition bookings_request :: request where
  "bookings_request = \<lparr>req_headers = Map.empty, pathname = ''/api/bookings''\<rparr>"

definition sample_handler :: "decoded \<Rightarrow> request \<Rightarrow> state \<Rightarrow> response \<times> state" where
  "sample_handler user request st = (\<lparr>status = 200, body = Next, resp_headers = []\<rparr>, st)"

definition exhausted_state :: state where
  "exhausted_state =
     empty_state\<lparr>rateLimitCache :=
       [(rate_key bookings_request api, \<lparr>count = 100, resetTime = 900000\<rparr>, 0)]\<rparr>"

definition blank_token_request :: request where
  "blank_token_request =
     \<lparr>req_headers = [''authorization'' \<mapsto> str ''Bearer  x''], pathname = ''/api/bookings''\<rparr>"

definition bearer_request :: request where
  "bearer_request =
     \<lparr>req_headers = [''authorization'' \<mapsto> str ''Bearer '' @ sample_access_token],
      pathname = ''/api/bookings''\<rparr>"

definition sample_findUserById :: "string \<Rightarrow> string + user_doc option" where
  "sample_findUserById uid =
     (if uid = ''u1'' then Inr (Some \<lparr>doc_id = ''u1'', doc_email = ''a@example.com''\<rparr>)
      else Inr None)"

definition old_refresh_token :: jsstring where
  "old_refresh_token = [Jws (RefreshTokenPayload ''u1'' ''t1'') 0 604800 ''refresh-secret'']"

definition new_refresh_token :: jsstring where
  "new_refresh_token = [Jws (RefreshTokenPayload ''u1'' ''t2'') 1 604801 ''refresh-secret'']"

definition refresh_request :: "jsstring \<Rightarrow> request" where
  "refresh_request token =
     \<lparr>req_headers = [''x-refresh-token'' \<mapsto> token], pathname = ''/api/auth/refresh''\<rparr>"

definition rotated_state :: state where
  "rotated_state =
     \<lparr>rateLimitCache = [(str ''auth:unknown'', \<lparr>count = 1, resetTime = 901000\<rparr>, 1000)],
      blacklistedTokens = [],
      blacklistedRefreshTokens = [(old_refresh_token, True, 1000)],
      securityLog = [(''token_refreshed'', [])]\<rparr>"

definition stranger_refresh_token :: jsstring where
  "stranger_refresh_token = [Jws (RefreshTokenPayload ''u9'' ''t1'') 0 604800 ''refresh-secret'']"

definition long_lived_env :: env where
  "long_lived_env = sample_env\<lparr>JWT_EXPIRES_IN := Some (7 * 24 * 60 * 60)\<rparr>"

definition week_token :: jsstring where
  "week_token = [Jws (JWTPayload ''u1'' ''a@example.com'' None) 0 604800 ''access-secret'']"

definition other_tokens :: "jsstring list" where
  "other_tokens = map (\<lambda>n. replicate n (Chr CHR ''x'')) [1..<1001]"




definition empty_origin_request :: request where
  "empty_origin_request = \<lparr>req_headers = [''origin'' \<mapsto> []], pathname = ''/api/bookings''\<rparr>"

section \<open>Properties of the cache and the rate limiter\<close>

lemma map_of_lru_delete:
  "map_of (lru_delete k c) k' = (if k' = k then None else map_of c k')"
  unfolding lru_delete_def by (induction c) auto

lemma map_of_lru_set_same: "map_of (lru_set opts now c k v) k = Some (v, now)"
  by (simp add: lru_set_def)

lemma lru_get_live:
  "map_of c k = Some (v, start) \<Longrightarrow> \<not> lru_stale opts now start \<Longrightarrow>
     lru_get opts now c k = (Some v, (k, v, start) # lru_delete k c)"
  by (simp add: lru_get_def)

lemma rateLimit_fresh:
  assumes "case fst (lru_get rateLimitCache_options now c (rate_key req ty)) of
             None \<Rightarrow> True | Some w \<Rightarrow> resetTime w < now"
  shows "fst (rateLimit req ty now c) = \<lparr>success = True, message = None, headers = None\<rparr>"
    and "map_of (snd (rateLimit req ty now c)) (rate_key req ty) =
           Some (\<lparr>count = 1, resetTime = now + windowMs (RATE_LIMITS ty)\<rparr>, now)"
  using assms
  by (auto simp: rateLimit_def Let_def map_of_lru_set_same split: prod.splits option.splits)

lemma rateLimit_deny:
  assumes "map_of c (rate_key req ty) = Some (w, start)"
    and "\<not> lru_stale rateLimitCache_options now start"
    and "\<not> resetTime w < now"
    and "max_limit (RATE_LIMITS ty) \<le> count w"
  shows "rateLimit req ty now c =
           (\<lparr>success = False, message = Some ''Too many requests'',
             headers = Some
               [(''X-RateLimit-Limit'', Text (toString (max_limit (RATE_LIMITS ty)))),
                (''X-RateLimit-Remaining'', Text ''0''),
                (''X-RateLimit-Reset'', IsoDate (resetTime w)),
                (''Retry-After'', Text (toString (ceil_div1000 (resetTime w - now))))]\<rparr>,
            (rate_key req ty, w, start) # lru_delete (rate_key req ty) c)"
  using assms by (simp add: rateLimit_def Let_def lru_get_live)

lemma rateLimit_allow:
  assumes "map_of c (rate_key req ty) = Some (w, start)"
    and "\<not> lru_stale rateLimitCache_options now start"
    and "\<not> resetTime w < now"
    and "count w < max_limit (RATE_LIMITS ty)"
  shows "fst (rateLimit req ty now c) =
           \<lparr>success = True, message = None,
             headers = Some
               [(''X-RateLimit-Limit'', Text (toString (max_limit (RATE_LIMITS ty)))),
                (''X-RateLimit-Remaining'',
                   Text (toString (max_limit (RATE_LIMITS ty) - (count w + 1)))),
                (''X-RateLimit-Reset'', IsoDate (resetTime w))]\<rparr>"
    and "map_of (snd (rateLimit req ty now c)) (rate_key req ty) =
           Some (w\<lparr>count := count w + 1\<rparr>, now)"
  using assms by (simp_all add: rateLimit_def Let_def lru_get_live map_of_lru_set_same)


lemma lru_get_Some:
  assumes "fst (lru_get opts now c k) = Some v"
  obtains start where "map_of c k = Some (v, start)" and "\<not> lru_stale opts now start"
  using assms by (auto simp: lru_get_def split: option.splits if_splits)

lemma windowMs_ttl: "windowMs (RATE_LIMITS ty) = ttl rateLimitCache_options"
  by (cases ty) (simp_all add: rateLimitCache_options_def)

lemma rateLimit_calls_Cons:
  "rateLimit_calls req ty (t # ts) c =
     (fst (rateLimit req ty t c) # fst (rateLimit_calls req ty ts (snd (rateLimit req ty t c))),
      snd (rateLimit_calls req ty ts (snd (rateLimit req ty t c))))"
  by (simp add: Let_def split: prod.splits)

lemma rateLimit_live_step:
  assumes m: "map_of c (rate_key req ty) = Some (\<lparr>count = n, resetTime = t1 + windowMs (RATE_LIMITS ty)\<rparr>, s)"
    and s: "t1 \<le> s" and t: "t \<le> t1 + windowMs (RATE_LIMITS ty)"
  shows "n < max_limit (RATE_LIMITS ty) \<Longrightarrow> success (fst (rateLimit req ty t c)) \<and>
           map_of (snd (rateLimit req ty t c)) (rate_key req ty) =
             Some (\<lparr>count = n + 1, resetTime = t1 + windowMs (RATE_LIMITS ty)\<rparr>, t)"
    and "max_limit (RATE_LIMITS ty) \<le> n \<Longrightarrow> \<not> success (fst (rateLimit req ty t c)) \<and>
           map_of (snd (rateLimit req ty t c)) (rate_key req ty) =
             Some (\<lparr>count = n, resetTime = t1 + windowMs (RATE_LIMITS ty)\<rparr>, s)"
proof -
  have live: "\<not> lru_stale rateLimitCache_options t s"
    using s t by (simp add: lru_stale_def windowMs_ttl)
  have ep: "\<not> resetTime \<lparr>count = n, resetTime = t1 + windowMs (RATE_LIMITS ty)\<rparr> < t"
    using t by simp
  show "n < max_limit (RATE_LIMITS ty) \<Longrightarrow> success (fst (rateLimit req ty t c)) \<and>
           map_of (snd (rateLimit req ty t c)) (rate_key req ty) =
             Some (\<lparr>count = n + 1, resetTime = t1 + windowMs (RATE_LIMITS ty)\<rparr>, t)"
    using rateLimit_allow [OF m live ep] by simp
  show "max_limit (RATE_LIMITS ty) \<le> n \<Longrightarrow> \<not> success (fst (rateLimit req ty t c)) \<and>
           map_of (snd (rateLimit req ty t c)) (rate_key req ty) =
             Some (\<lparr>count = n, resetTime = t1 + windowMs (RATE_LIMITS ty)\<rparr>, s)"
    using rateLimit_deny [OF m live ep] by (simp add: map_of_lru_delete)
qed

lemma rateLimit_rollover:
  assumes m: "map_of c (rate_key req ty) = Some (w, s)" and t: "resetTime w < t"
  shows "success (fst (rateLimit req ty t c)) \<and>
         stored (snd (rateLimit req ty t c)) (rate_key req ty) =
           Some \<lparr>count = 1, resetTime = t + windowMs (RATE_LIMITS ty)\<rparr>"
proof -
  have "case fst (lru_get rateLimitCache_options t c (rate_key req ty)) of
          None \<Rightarrow> True | Some w \<Rightarrow> resetTime w < t"
    using m t by (simp add: lru_get_def)
  from rateLimit_fresh [OF this] show ?thesis by (simp add: stored_def)
qed

text \<open>
  Claim C5. For a limit class whose maximum is 5 and any client: when the first call
  finds no window, or one whose reset time has passed, then that call and the next four
  made within the window are allowed and the sixth, made no later than the reset time, is
  denied; a following call made after the reset time is allowed and stores a fresh
  window with count 1.
\<close>

theorem C5_sixth_call_denied:
  assumes max5: "max_limit (RATE_LIMITS ty) = 5"
    and start: "case fst (lru_get rateLimitCache_options t1 c (rate_key req ty)) of
                  None \<Rightarrow> True | Some w \<Rightarrow> resetTime w < t1"
    and win: "\<forall>t \<in> set [t2, t3, t4, t5, t6]. t1 \<le> t \<and> t \<le> t1 + windowMs (RATE_LIMITS ty)"
    and past: "t1 + windowMs (RATE_LIMITS ty) < t7"
  shows "map success (fst (rateLimit_calls req ty [t1, t2, t3, t4, t5, t6] c)) =
           [True, True, True, True, True, False] \<and>
         success (fst (rateLimit req ty t7 (snd (rateLimit_calls req ty [t1, t2, t3, t4, t5, t6] c)))) \<and>
         stored (snd (rateLimit req ty t7 (snd (rateLimit_calls req ty [t1, t2, t3, t4, t5, t6] c))))
             (rate_key req ty) =
           Some \<lparr>count = 1, resetTime = t7 + windowMs (RATE_LIMITS ty)\<rparr>"
proof -
  let ?W = "windowMs (RATE_LIMITS ty)"
  let ?k = "rate_key req ty"
  define c1 where "c1 = snd (rateLimit req ty t1 c)"
  define c2 where "c2 = snd (rateLimit req ty t2 c1)"
  define c3 where "c3 = snd (rateLimit req ty t3 c2)"
  define c4 where "c4 = snd (rateLimit req ty t4 c3)"
  define c5 where "c5 = snd (rateLimit req ty t5 c4)"
  define c6 where "c6 = snd (rateLimit req ty t6 c5)"
  have b: "t1 \<le> t2" "t2 \<le> t1 + ?W" "t1 \<le> t3" "t3 \<le> t1 + ?W" "t1 \<le> t4" "t4 \<le> t1 + ?W"
    "t1 \<le> t5" "t5 \<le> t1 + ?W" "t1 \<le> t6" "t6 \<le> t1 + ?W"
    using win by simp_all
  have r1: "success (fst (rateLimit req ty t1 c))"
    and m1: "map_of c1 ?k = Some (\<lparr>count = 1, resetTime = t1 + ?W\<rparr>, t1)"
    using rateLimit_fresh [OF start] by (simp_all add: c1_def)
  have s2: "success (fst (rateLimit req ty t2 c1)) \<and>
            map_of c2 ?k = Some (\<lparr>count = 1 + 1, resetTime = t1 + ?W\<rparr>, t2)"
    unfolding c2_def using rateLimit_live_step(1) [OF m1 _ b(2)] max5 by simp
  then have m2: "map_of c2 ?k = Some (\<lparr>count = 2, resetTime = t1 + ?W\<rparr>, t2)" by simp
  have s3: "success (fst (rateLimit req ty t3 c2)) \<and>
            map_of c3 ?k = Some (\<lparr>count = 2 + 1, resetTime = t1 + ?W\<rparr>, t3)"
    unfolding c3_def using rateLimit_live_step(1) [OF m2 b(1) b(4)] max5 by simp
  then have m3: "map_of c3 ?k = Some (\<lparr>count = 3, resetTime = t1 + ?W\<rparr>, t3)" by simp
  have s4: "success (fst (rateLimit req ty t4 c3)) \<and>
            map_of c4 ?k = Some (\<lparr>count = 3 + 1, resetTime = t1 + ?W\<rparr>, t4)"
    unfolding c4_def using rateLimit_live_step(1) [OF m3 b(3) b(6)] max5 by simp
  then have m4: "map_of c4 ?k = Some (\<lparr>count = 4, resetTime = t1 + ?W\<rparr>, t4)" by simp
  have s5: "success (fst (rateLimit req ty t5 c4)) \<and>
            map_of c5 ?k = Some (\<lparr>count = 4 + 1, resetTime = t1 + ?W\<rparr>, t5)"
    unfolding c5_def using rateLimit_live_step(1) [OF m4 b(5) b(8)] max5 by simp
  then have m5: "map_of c5 ?k = Some (\<lparr>count = 5, resetTime = t1 + ?W\<rparr>, t5)" by simp
  have s6: "\<not> success (fst (rateLimit req ty t6 c5)) \<and>
            map_of c6 ?k = Some (\<lparr>count = 5, resetTime = t1 + ?W\<rparr>, t5)"
    unfolding c6_def using rateLimit_live_step(2) [OF m5 b(7) b(10)] max5 by simp
  have run: "rateLimit_calls req ty [t1, t2, t3, t4, t5, t6] c =
      ([fst (rateLimit req ty t1 c), fst (rateLimit req ty t2 c1), fst (rateLimit req ty t3 c2),
        fst (rateLimit req ty t4 c3), fst (rateLimit req ty t5 c4), fst (rateLimit req ty t6 c5)],
       c6)"
    by (simp only: rateLimit_calls_Cons rateLimit_calls.simps(1) fst_conv snd_conv
        c1_def c2_def c3_def c4_def c5_def c6_def)
  have seventh: "success (fst (rateLimit req ty t7 c6)) \<and>
      stored (snd (rateLimit req ty t7 c6)) ?k = Some \<lparr>count = 1, resetTime = t7 + ?W\<rparr>"
    using rateLimit_rollover [of c6 req ty _ t5 t7] s6 past by simp
  show ?thesis
    unfolding run fst_conv snd_conv using r1 s2 s3 s4 s5 s6 seventh by simp
qed


theorem C5_sixth_call_denied_witness:
  "max_limit (RATE_LIMITS auth) = 5 \<and>
   map success (fst (rateLimit_calls anonymous_request auth [0, 1, 2, 3, 4, 900000] [])) =
     [True, True, True, True, True, False] \<and>
   success (fst (rateLimit anonymous_request auth 900001
      (snd (rateLimit_calls anonymous_request auth [0, 1, 2, 3, 4, 900000] [])))) \<and>
   stored (snd (rateLimit anonymous_request auth 900001
      (snd (rateLimit_calls anonymous_request auth [0, 1, 2, 3, 4, 900000] []))))
     (rate_key anonymous_request auth) = Some \<lparr>count = 1, resetTime = 1800001\<rparr>"
  using C5_sixth_call_denied [of auth 0 "[]" anonymous_request 1 2 3 4 900000 900001]
  by (simp add: lru_get_def)

text \<open>
  Claim C6. Let a call find the live window \<open>w\<close>. Up to the reset time of \<open>w\<close>: a
  call that meets a full count is denied, reports a remaining quota of 0 and leaves the
  stored window as it was; any other call is allowed and stores the count plus one under
  the same reset time; so the count never goes down and the reset time stays. Past the
  reset time the stored window is replaced whole by a fresh one with count 1.
\<close>

theorem C6_count_within_epoch:
  assumes look: "fst (lru_get rateLimitCache_options now c (rate_key req ty)) = Some w"
  shows "(now \<le> resetTime w \<longrightarrow>
            (max_limit (RATE_LIMITS ty) \<le> count w \<longrightarrow>
               \<not> success (fst (rateLimit req ty now c)) \<and>
               header (fst (rateLimit req ty now c)) ''X-RateLimit-Remaining'' = Some (Text ''0'') \<and>
               stored (snd (rateLimit req ty now c)) (rate_key req ty) = Some w) \<and>
            (count w < max_limit (RATE_LIMITS ty) \<longrightarrow>
               success (fst (rateLimit req ty now c)) \<and>
               stored (snd (rateLimit req ty now c)) (rate_key req ty) =
                 Some \<lparr>count = count w + 1, resetTime = resetTime w\<rparr>) \<and>
            (\<exists>w'. stored (snd (rateLimit req ty now c)) (rate_key req ty) = Some w' \<and>
               count w \<le> count w' \<and> resetTime w' = resetTime w)) \<and>
         (resetTime w < now \<longrightarrow>
            stored (snd (rateLimit req ty now c)) (rate_key req ty) =
              Some \<lparr>count = 1, resetTime = now + windowMs (RATE_LIMITS ty)\<rparr>)"
proof -
  from look obtain start where m: "map_of c (rate_key req ty) = Some (w, start)"
    and live: "\<not> lru_stale rateLimitCache_options now start"
    by (rule lru_get_Some)
  have deny: "\<not> success (fst (rateLimit req ty now c)) \<and>
      header (fst (rateLimit req ty now c)) ''X-RateLimit-Remaining'' = Some (Text ''0'') \<and>
      stored (snd (rateLimit req ty now c)) (rate_key req ty) = Some w"
    if "now \<le> resetTime w" "max_limit (RATE_LIMITS ty) \<le> count w"
    using rateLimit_deny [OF m live _ that(2)] that(1)
    by (simp add: header_def stored_def map_of_lru_delete)
  have allow: "success (fst (rateLimit req ty now c)) \<and>
      stored (snd (rateLimit req ty now c)) (rate_key req ty) =
        Some \<lparr>count = count w + 1, resetTime = resetTime w\<rparr>"
    if "now \<le> resetTime w" "count w < max_limit (RATE_LIMITS ty)"
    using rateLimit_allow [OF m live _ that(2)] that(1)
    by (simp add: stored_def)
  have mono: "\<exists>w'. stored (snd (rateLimit req ty now c)) (rate_key req ty) = Some w' \<and>
      count w \<le> count w' \<and> resetTime w' = resetTime w"
    if "now \<le> resetTime w"
    using deny [OF that] allow [OF that] by (cases "count w < max_limit (RATE_LIMITS ty)") auto
  have roll: "stored (snd (rateLimit req ty now c)) (rate_key req ty) =
      Some \<lparr>count = 1, resetTime = now + windowMs (RATE_LIMITS ty)\<rparr>"
    if "resetTime w < now"
    using rateLimit_rollover [OF m that] by simp
  show ?thesis using deny allow mono roll by blast
qed

theorem C6_count_within_epoch_witness:
  "(\<not> success (fst (rateLimit anonymous_request auth 10 (window_cache 5 20))) \<and>
    header (fst (rateLimit anonymous_request auth 10 (window_cache 5 20))) ''X-RateLimit-Remaining''
      = Some (Text ''0'') \<and>
    stored (snd (rateLimit anonymous_request auth 10 (window_cache 5 20)))
      (rate_key anonymous_request auth) = Some \<lparr>count = 5, resetTime = 20\<rparr>) \<and>
   (success (fst (rateLimit anonymous_request auth 10 (window_cache 4 20))) \<and>
    stored (snd (rateLimit anonymous_request auth 10 (window_cache 4 20)))
      (rate_key anonymous_request auth) = Some \<lparr>count = 5, resetTime = 20\<rparr>) \<and>
   stored (snd (rateLimit anonymous_request auth 21 (window_cache 4 20)))
      (rate_key anonymous_request auth) = Some \<lparr>count = 1, resetTime = 900021\<rparr>"
  using C6_count_within_epoch [of 10 "window_cache 5 20" anonymous_request auth "\<lparr>count = 5, resetTime = 20\<rparr>"]
    C6_count_within_epoch [of 10 "window_cache 4 20" anonymous_request auth "\<lparr>count = 4, resetTime = 20\<rparr>"]
    C6_count_within_epoch [of 21 "window_cache 4 20" anonymous_request auth "\<lparr>count = 4, resetTime = 20\<rparr>"]
  by (simp add: window_cache_def lru_get_def lru_stale_def rateLimitCache_options_def)

text \<open>
  Claim C8 says that every allowed result carries the three rate-limit headers, also the
  one that creates a fresh window. The first call of a client returns no headers at all,
  unlike the allowed call that increments an existing window.
\<close>

theorem C8_fresh_window_has_no_headers:
  "rateLimit anonymous_request auth 0 [] =
     (\<lparr>success = True, message = None, headers = None\<rparr>,
      [(rate_key anonymous_request auth, \<lparr>count = 1, resetTime = 900000\<rparr>, 0)])"
  by (simp add: rateLimit_def lru_get_def lru_set_def)

section \<open>Properties of the tokens\<close>


lemma lru_set_keeps:
  assumes c: "c = pre @ (t, v, s) # post" and pre: "t \<notin> fst ` set pre" and k: "k \<noteq> t"
    and room: "Suc (length pre) < max_entries opts"
  shows "\<exists>pre' post'. lru_set opts now c k v' = pre' @ (t, v, s) # post' \<and>
           t \<notin> fst ` set pre' \<and> length pre' \<le> Suc (length pre)"
proof (cases "k \<in> fst ` set c")
  case True
  have "lru_set opts now c k v' =
      ((k, v', now) # lru_delete k pre) @ (t, v, s) # lru_delete k post"
    using True k by (simp add: lru_set_def lru_delete_def c)
  moreover have "t \<notin> fst ` set ((k, v', now) # lru_delete k pre)"
    using pre k by (auto simp: lru_delete_def)
  moreover have "length ((k, v', now) # lru_delete k pre) \<le> Suc (length pre)"
    by (simp add: lru_delete_def)
  ultimately show ?thesis by blast
next
  case False
  show ?thesis
  proof (cases "max_entries opts \<le> length c")
    case full: True
    with room c have "post \<noteq> []" by auto
    then have "butlast c = pre @ (t, v, s) # butlast post"
      by (simp add: c butlast_append)
    then have "lru_set opts now c k v' = ((k, v', now) # pre) @ (t, v, s) # butlast post"
      using False full by (simp add: lru_set_def)
    moreover have "t \<notin> fst ` set ((k, v', now) # pre)" using pre k by auto
    ultimately show ?thesis by (metis length_Cons le_refl)
  next
    case notfull: False
    then have "lru_set opts now c k v' = ((k, v', now) # pre) @ (t, v, s) # post"
      using False by (simp add: lru_set_def c)
    moreover have "t \<notin> fst ` set ((k, v', now) # pre)" using pre k by auto
    ultimately show ?thesis by (metis length_Cons le_refl)
  qed
qed

lemma revoke_all_keeps:
  assumes "blacklistedTokens st = pre @ (t, True, s) # post" and "t \<notin> fst ` set pre"
    and "t \<notin> snd ` set later" and "length pre + length later < 1000"
  shows "\<exists>pre' post'. blacklistedTokens (revoke_all later st) = pre' @ (t, True, s) # post' \<and>
           t \<notin> fst ` set pre'"
  using assms
proof (induction later arbitrary: st pre post)
  case Nil
  then show ?case by auto
next
  case (Cons op later)
  obtain now k where op: "op = (now, k)" by (cases op)
  from Cons.prems(3) op have k: "k \<noteq> t" and rest: "t \<notin> snd ` set later" by auto
  from Cons.prems(4) have room: "Suc (length pre) < max_entries blacklistedTokens_options"
    by (simp add: blacklistedTokens_options_def)
  from lru_set_keeps [OF Cons.prems(1) Cons.prems(2) k room]
  obtain pre' post' where
    "lru_set blacklistedTokens_options now (blacklistedTokens st) k True = pre' @ (t, True, s) # post'"
    and "t \<notin> fst ` set pre'" and "length pre' \<le> Suc (length pre)"
    by blast
  then have "blacklistedTokens (blacklistToken now st k) = pre' @ (t, True, s) # post'"
    and "t \<notin> fst ` set pre'" and "length pre' + length later < 1000"
    using Cons.prems(4) by (simp_all add: blacklistToken_def)
  from Cons.IH [OF this(1) this(2) rest this(3)] show ?case by (simp add: op)
qed

lemma map_of_first:
  "t \<notin> fst ` set pre \<Longrightarrow> map_of (pre @ (t, v) # post) t = Some v"
  by (induction pre) auto

text \<open>
  Claim C1, amended. With the access secret configured, a token that has been put on the
  access blacklist is rejected with \<open>TokenBlacklistedError\<close> by every verification made
  no more than 24 hours after the revocation and after fewer than 1000 later revocations
  of other tokens, whatever the token is: also one whose signature is valid and that has
  not expired.
\<close>

theorem C1_revoked_while_entry_lives:
  assumes "JWT_SECRET e = Some secret" and "secret \<noteq> []"
    and "t \<notin> snd ` set later" and "length later < 1000"
    and "tv - tb \<le> ttl blacklistedTokens_options"
  shows "verifyAccessToken e tv (revoke_all later (blacklistToken tb st t)) t =
           Inl TokenBlacklistedError"
proof -
  have "blacklistedTokens (blacklistToken tb st t) =
      [] @ (t, True, tb) # tl (blacklistedTokens (blacklistToken tb st t))"
    by (simp add: blacklistToken_def lru_set_def)
  from revoke_all_keeps [OF this _ assms(3)] assms(4)
  obtain pre' post' where
    "blacklistedTokens (revoke_all later (blacklistToken tb st t)) = pre' @ (t, True, tb) # post'"
    and "t \<notin> fst ` set pre'"
    by auto
  then have "map_of (blacklistedTokens (revoke_all later (blacklistToken tb st t))) t =
      Some (True, tb)"
    by (metis map_of_first)
  then have "lru_has blacklistedTokens_options tv
      (blacklistedTokens (revoke_all later (blacklistToken tb st t))) t"
    using assms(5) by (simp add: lru_has_def lru_stale_def)
  then show ?thesis
    using assms(1,2) by (simp add: verifyAccessToken_def configured_def)
qed

lemma revoke_all_append:
  "revoke_all (xs @ ys) st = revoke_all ys (revoke_all xs st)"
  by (induction xs arbitrary: st) auto

lemma revoke_all_new:
  assumes "distinct ks" and "set ks \<inter> fst ` set (blacklistedTokens st) = {}"
    and "length (blacklistedTokens st) + length ks \<le> 1000"
  shows "blacklistedTokens (revoke_all (map (Pair now) ks) st) =
           rev (map (\<lambda>k. (k, True, now)) ks) @ blacklistedTokens st"
  using assms
proof (induction ks arbitrary: st)
  case Nil
  then show ?case by simp
next
  case (Cons k ks)
  have step: "blacklistedTokens (blacklistToken now st k) = (k, True, now) # blacklistedTokens st"
    using Cons.prems(2,3)
    by (simp add: blacklistToken_def lru_set_def blacklistedTokens_options_def)
  have "blacklistedTokens (revoke_all (map (Pair now) ks) (blacklistToken now st k)) =
      rev (map (\<lambda>k. (k, True, now)) ks) @ blacklistedTokens (blacklistToken now st k)"
    using Cons.prems by (intro Cons.IH) (auto simp: step)
  then show ?case by (simp add: step)
qed

lemma other_tokens_split:
  "other_tokens =
     map (\<lambda>n. replicate n (Chr CHR ''x'')) [1..<1000] @ [replicate 1000 (Chr CHR ''x'')]"
proof -
  have "[1..<1001] = [1..<1000] @ [1000::nat]"
    using upt_Suc_append [of 1 1000] by simp
  then show ?thesis by (simp add: other_tokens_def)
qed

lemma replicate_tokens:
  "distinct (map (\<lambda>n. replicate n (Chr CHR ''x'')) [1..<1000])"
  "sample_access_token \<notin> set (map (\<lambda>n. replicate n (Chr CHR ''x'')) [1..<1000])"
  "replicate 1000 (Chr CHR ''x'') \<notin> set (map (\<lambda>n. replicate n (Chr CHR ''x'')) [1..<1000])"
  "replicate 1000 (Chr CHR ''x'') \<noteq> sample_access_token"
proof -
  have "inj_on (\<lambda>n. replicate n (Chr CHR ''x'')) A" for A
    by (rule inj_onI) (metis length_replicate)
  then show "distinct (map (\<lambda>n. replicate n (Chr CHR ''x'')) [1..<1000])"
    by (simp add: distinct_map)
  show "sample_access_token \<notin> set (map (\<lambda>n. replicate n (Chr CHR ''x'')) [1..<1000])"
    by (auto simp: sample_access_token_def Cons_replicate_eq)
  show "replicate 1000 (Chr CHR ''x'') \<notin> set (map (\<lambda>n. replicate n (Chr CHR ''x'')) [1..<1000])"
    by (auto dest: arg_cong [where f = length])
  show "replicate 1000 (Chr CHR ''x'') \<noteq> sample_access_token"
    by (auto simp: sample_access_token_def dest: arg_cong [where f = length])
qed

lemma blacklistedTokens_blacklistToken:
  "blacklistedTokens (blacklistToken now st k) =
     lru_set blacklistedTokens_options now (blacklistedTokens st) k True"
  by (simp add: blacklistToken_def)

lemma lru_set_full:
  "k \<notin> fst ` set (xs @ [y]) \<Longrightarrow> max_entries opts \<le> length (xs @ [y]) \<Longrightarrow>
     lru_set opts now (xs @ [y]) k v = (k, v, now) # xs"
  by (simp add: lru_set_def)

lemma evicted_after_1000:
  "blacklistedTokens
     (revoke_all (map (Pair 2000) other_tokens) (blacklistToken 1000 empty_state sample_access_token)) =
   (replicate 1000 (Chr CHR ''x''), True, 2000) #
     rev (map (\<lambda>k. (k, True, 2000)) (map (\<lambda>n. replicate n (Chr CHR ''x'')) [1..<1000]))"
proof -
  let ?ks = "map (\<lambda>n. replicate n (Chr CHR ''x'')) [1..<1000]"
  let ?st = "blacklistToken 1000 empty_state sample_access_token"
  have c0: "blacklistedTokens ?st = [(sample_access_token, True, 1000)]"
    by (simp add: blacklistToken_def empty_state_def lru_set_def)
  have c1: "blacklistedTokens (revoke_all (map (Pair 2000) ?ks) ?st) =
      rev (map (\<lambda>k. (k, True, 2000)) ?ks) @ [(sample_access_token, True, 1000)]"
    using revoke_all_new [of ?ks ?st 2000] replicate_tokens(1,2) by (simp add: c0)
  have keys: "replicate 1000 (Chr CHR ''x'') \<notin>
      fst ` set (rev (map (\<lambda>k. (k, True, 2000)) ?ks) @ [(sample_access_token, True, 1000)])"
    using replicate_tokens(3,4) by (auto simp: image_iff)
  have "max_entries blacklistedTokens_options \<le>
      length (rev (map (\<lambda>k. (k, True, 2000::int)) ?ks) @ [(sample_access_token, True, 1000)])"
    by (simp add: blacklistedTokens_options_def)
  from lru_set_full [OF keys this]
  have "lru_set blacklistedTokens_options 2000
          (rev (map (\<lambda>k. (k, True, 2000)) ?ks) @ [(sample_access_token, True, 1000)])
          (replicate 1000 (Chr CHR ''x'')) True =
        (replicate 1000 (Chr CHR ''x''), True, 2000) # rev (map (\<lambda>k. (k, True, 2000)) ?ks)" .
  moreover have "revoke_all (map (Pair 2000) other_tokens) ?st =
      blacklistToken 2000 (revoke_all (map (Pair 2000) ?ks) ?st) (replicate 1000 (Chr CHR ''x''))"
    by (simp only: other_tokens_split map_append list.map revoke_all_append revoke_all.simps)
  ultimately show ?thesis
    by (simp only: blacklistedTokens_blacklistToken c1)
qed

text \<open>
  Claim C1 says that after a revocation every later verification of the token fails as
  revoked. A token of seven days' life verifies again once the 24 hours of its blacklist
  entry are over; a token verifies again once 1000 other tokens have been revoked after
  it, which evicts its entry; and where no access secret is set the verification fails
  with the configuration error instead.
\<close>

theorem C1_counterexample:
  "generateAccessToken long_lived_env 0 (JWTPayload ''u1'' ''a@example.com'' None) = Inr week_token \<and>
   verifyAccessToken long_lived_env (1000 + 86400001) (blacklistToken 1000 empty_state week_token)
       week_token =
     Inr \<lparr>signed_payload = JWTPayload ''u1'' ''a@example.com'' None, iat = 0, exp = 604800\<rparr> \<and>
   verifyAccessToken sample_env 5000
       (revoke_all (map (Pair 2000) other_tokens)
          (blacklistToken 1000 empty_state sample_access_token))
       sample_access_token =
     Inr \<lparr>signed_payload = JWTPayload ''u1'' ''a@example.com'' None, iat = 0, exp = 900\<rparr> \<and>
   verifyAccessToken (sample_env\<lparr>JWT_SECRET := None\<rparr>) 5000
       (blacklistToken 1000 empty_state sample_access_token) sample_access_token =
     Inl (Error ''JWT_SECRET environment variable is not defined'')"
proof -
  have a: "generateAccessToken long_lived_env 0 (JWTPayload ''u1'' ''a@example.com'' None) =
      Inr week_token"
    by (simp add: generateAccessToken_def long_lived_env_def sample_env_def configured_def
        jwt_sign_def access_expiresIn_def week_token_def)
  have b: "verifyAccessToken long_lived_env (1000 + 86400001)
        (blacklistToken 1000 empty_state week_token) week_token =
      Inr \<lparr>signed_payload = JWTPayload ''u1'' ''a@example.com'' None, iat = 0, exp = 604800\<rparr>"
    by (simp add: verifyAccessToken_def long_lived_env_def sample_env_def configured_def
        blacklistToken_def empty_state_def lru_set_def lru_has_def lru_stale_def
        blacklistedTokens_options_def week_token_def)
  have "sample_access_token \<notin> fst ` set ((replicate 1000 (Chr CHR ''x''), True, 2000::int) #
      rev (map (\<lambda>k. (k, True, 2000)) (map (\<lambda>n. replicate n (Chr CHR ''x'')) [1..<1000])))"
    using replicate_tokens(2,4) by (auto simp: image_iff)
  then have "map_of ((replicate 1000 (Chr CHR ''x''), True, 2000::int) #
      rev (map (\<lambda>k. (k, True, 2000)) (map (\<lambda>n. replicate n (Chr CHR ''x'')) [1..<1000])))
      sample_access_token = None"
    by (simp only: map_of_eq_None_iff not_False_eq_True)
  then have c: "verifyAccessToken sample_env 5000
        (revoke_all (map (Pair 2000) other_tokens)
           (blacklistToken 1000 empty_state sample_access_token))
        sample_access_token =
      Inr \<lparr>signed_payload = JWTPayload ''u1'' ''a@example.com'' None, iat = 0, exp = 900\<rparr>"
    by (simp add: verifyAccessToken_def sample_env_def configured_def lru_has_def
        evicted_after_1000 sample_access_token_def [symmetric])
       (simp add: sample_access_token_def)
  have d: "verifyAccessToken (sample_env\<lparr>JWT_SECRET := None\<rparr>) 5000
        (blacklistToken 1000 empty_state sample_access_token) sample_access_token =
      Inl (Error ''JWT_SECRET environment variable is not defined'')"
    by (simp add: verifyAccessToken_def sample_env_def configured_def)
  show ?thesis using a b c d by simp
qed

theorem C1_revoked_while_entry_lives_witness:
  "jwt_verify sample_access_token ''access-secret'' 5000 =
     Inr \<lparr>signed_payload = JWTPayload ''u1'' ''a@example.com'' None, iat = 0, exp = 900\<rparr> \<and>
   verifyAccessToken sample_env 5000
     (revoke_all [(2000, str ''other''), (3000, week_token)]
        (blacklistToken 1000 empty_state sample_access_token))
     sample_access_token = Inl TokenBlacklistedError"
  using C1_revoked_while_entry_lives
          [where e = sample_env and secret = "''access-secret''" and tv = 5000 and tb = 1000
             and st = empty_state and t = sample_access_token
             and later = "[(2000, str ''other''), (3000, week_token)]"]
  by (simp add: sample_env_def sample_access_token_def week_token_def str_def
      blacklistedTokens_options_def)

text \<open>
  Claim C2. With the access secret configured, issuing an access token for the payload
  succeeds, and verifying that token before its expiry, when it is not on the blacklist,
  returns the payload that was signed, so the same \<open>userId\<close> and \<open>email\<close>.
\<close>

theorem C2_fresh_access_token_verifies:
  assumes "JWT_SECRET e = Some secret" and "secret \<noteq> []"
    and "tv div 1000 < t0 div 1000 + access_expiresIn e"
  shows "case generateAccessToken e t0 (JWTPayload uid mail r) of
           Inl err \<Rightarrow> False
         | Inr token \<Rightarrow>
             \<not> isTokenBlacklisted tv st token \<longrightarrow>
               verifyAccessToken e tv st token =
                 Inr \<lparr>signed_payload = JWTPayload uid mail r, iat = t0 div 1000,
                      exp = t0 div 1000 + access_expiresIn e\<rparr>"
  using assms
  by (simp add: verifyAccessToken_def generateAccessToken_def configured_def
      isTokenBlacklisted_def jwt_sign_def)

theorem C2_fresh_access_token_verifies_witness:
  "generateAccessToken sample_env 1000 (JWTPayload ''u1'' ''a@example.com'' None) =
     Inr [Jws (JWTPayload ''u1'' ''a@example.com'' None) 1 901 ''access-secret''] \<and>
   \<not> isTokenBlacklisted 5000 empty_state
       [Jws (JWTPayload ''u1'' ''a@example.com'' None) 1 901 ''access-secret''] \<and>
   verifyAccessToken sample_env 5000 empty_state
       [Jws (JWTPayload ''u1'' ''a@example.com'' None) 1 901 ''access-secret''] =
     Inr \<lparr>signed_payload = JWTPayload ''u1'' ''a@example.com'' None, iat = 1, exp = 901\<rparr>"
  using C2_fresh_access_token_verifies
          [where e = sample_env and secret = "''access-secret''" and tv = 5000 and ?t0.0 = 1000
             and uid = "''u1''" and mail = "''a@example.com''" and r = None
             and st = empty_state]
  by (simp add: sample_env_def generateAccessToken_def configured_def jwt_sign_def
      access_expiresIn_def isTokenBlacklisted_def lru_has_def empty_state_def)

lemma jwt_verify_malformed:
  "(\<forall>p i x. token \<noteq> [Jws p i x k]) \<Longrightarrow> jwt_verify token k now = Inl JsonWebTokenError"
  by (induction token k now rule: jwt_verify.induct) auto

text \<open>
  Claim C4 says that the signature is validated before the revocation set is consulted,
  so that a malformed token on the blacklist is reported as malformed. It is reported
  as revoked.
\<close>

theorem C4_counterexample:
  "jwt_verify (str ''garbage'') ''access-secret'' 0 = Inl JsonWebTokenError \<and>
   isTokenBlacklisted 0 (blacklistToken 0 empty_state (str ''garbage'')) (str ''garbage'') \<and>
   verifyAccessToken sample_env 0 (blacklistToken 0 empty_state (str ''garbage'')) (str ''garbage'')
     \<noteq> Inl JsonWebTokenError"
  by (simp add: str_def verifyAccessToken_def blacklistToken_def isTokenBlacklisted_def
      sample_env_def configured_def empty_state_def lru_has_def lru_set_def lru_stale_def
      blacklistedTokens_options_def)

text \<open>
  Claim C4, amended. Both verifications consult their revocation set first and validate
  the token only then: a token in the set fails with the revoked error whatever its
  signature, structure or expiry; a token outside the set gets the result of the
  validation, which is \<open>JsonWebTokenError\<close> for a text that is not a token signed with
  the secret and \<open>TokenExpiredError\<close> for a signed token whose expiry has come.
\<close>

theorem C4_revocation_checked_first:
  assumes "JWT_SECRET e = Some s" and "s \<noteq> []"
    and "JWT_REFRESH_SECRET e = Some rs" and "rs \<noteq> []"
  shows "(isTokenBlacklisted now st token \<longrightarrow>
            verifyAccessToken e now st token = Inl TokenBlacklistedError) \<and>
         (isRefreshTokenBlacklisted now st token \<longrightarrow>
            verifyRefreshToken e now st token = Inl RefreshTokenBlacklistedError) \<and>
         (\<not> isTokenBlacklisted now st token \<longrightarrow>
            verifyAccessToken e now st token = jwt_verify token s now) \<and>
         (\<not> isRefreshTokenBlacklisted now st token \<longrightarrow>
            verifyRefreshToken e now st token = jwt_verify token rs now) \<and>
         ((\<forall>p i x. token \<noteq> [Jws p i x k]) \<longrightarrow> jwt_verify token k now = Inl JsonWebTokenError) \<and>
         (x \<le> now div 1000 \<longrightarrow> jwt_verify [Jws p i x k] k now = Inl TokenExpiredError)"
  using assms
  by (simp add: verifyAccessToken_def verifyRefreshToken_def configured_def
      isTokenBlacklisted_def isRefreshTokenBlacklisted_def jwt_verify_malformed)

theorem C4_revocation_checked_first_witness:
  "verifyAccessToken sample_env 0 garbage_revoked (str ''garbage'') = Inl TokenBlacklistedError \<and>
   verifyRefreshToken sample_env 0 garbage_revoked (str ''garbage'') =
     Inl RefreshTokenBlacklistedError \<and>
   verifyAccessToken sample_env 9000 empty_state (str ''garbage'') = Inl JsonWebTokenError \<and>
   verifyRefreshToken sample_env 9000 empty_state expired_refresh_token = Inl TokenExpiredError"
  using C4_revocation_checked_first
          [where e = sample_env and s = "''access-secret''" and rs = "''refresh-secret''"
             and now = 0 and st = garbage_revoked and token = "str ''garbage''"
             and k = "''access-secret''" and x = 0]
        C4_revocation_checked_first
          [where e = sample_env and s = "''access-secret''" and rs = "''refresh-secret''"
             and now = 9000 and st = empty_state and token = "str ''garbage''"
             and k = "''access-secret''" and x = 5
             and p = "RefreshTokenPayload ''u1'' ''t1''" and i = 0]
        C4_revocation_checked_first
          [where e = sample_env and s = "''access-secret''" and rs = "''refresh-secret''"
             and now = 9000 and st = empty_state and token = expired_refresh_token
             and k = "''refresh-secret''" and x = 5
             and p = "RefreshTokenPayload ''u1'' ''t1''" and i = 0]
  by (simp add: sample_env_def garbage_revoked_def expired_refresh_token_def str_def
      isTokenBlacklisted_def isRefreshTokenBlacklisted_def blacklistToken_def
      blacklistRefreshToken_def empty_state_def lru_has_def lru_set_def lru_stale_def
      blacklistedTokens_options_def blacklistedRefreshTokens_options_def)

section \<open>Properties of the gate\<close>

text \<open>
  Claim C9 says that a request whose Origin header is present and not in the allow-list
  gets the 403 response. A request whose Origin header is present with an empty value
  passes, though the empty string is not in the allow-list.
\<close>

theorem C9_counterexample:
  "headers_get empty_origin_request ''origin'' = Some [] \<and>
   [] \<notin> set (map str (allowedOrigins sample_env)) \<and>
   securityMiddleware sample_env empty_origin_request =
     \<lparr>status = 200, body = Next, resp_headers = SECURITY_HEADERS\<rparr>"
  by (simp add: headers_get_def normalize_def empty_origin_request_def allowedOrigins_def
      sample_env_def str_def securityMiddleware_def validateOrigin_def get_truthy_def)

text \<open>
  Claim C9, amended. A request whose Origin header has a non-empty value that is not in
  the configured allow-list gets the 403 response \<open>Invalid origin\<close>; a request without
  an Origin header, or with an empty one, passes the origin check whatever the allow-list
  holds.
\<close>

theorem C9_origin_check:
  "(headers_get request ''origin'' = Some origin \<and> origin \<noteq> [] \<and>
      origin \<notin> set (map str (allowedOrigins e)) \<longrightarrow>
        securityMiddleware e request =
          \<lparr>status = 403, body = ErrorJson ''Invalid origin'', resp_headers = []\<rparr>) \<and>
   (headers_get request ''origin'' = None \<or> headers_get request ''origin'' = Some [] \<longrightarrow>
        validateOrigin e request \<and> status (securityMiddleware e request) = 200)"
  by (auto simp: securityMiddleware_def validateOrigin_def get_truthy_def json_error_def)

theorem C9_origin_check_witness:
  "securityMiddleware sample_env evil_request =
     \<lparr>status = 403, body = ErrorJson ''Invalid origin'', resp_headers = []\<rparr> \<and>
   validateOrigin (sample_env\<lparr>ALLOWED_ORIGINS := Some ''https://app.example''\<rparr>) bookings_request \<and>
   status (securityMiddleware (sample_env\<lparr>ALLOWED_ORIGINS := Some ''https://app.example''\<rparr>)
     bookings_request) = 200 \<and>
   status (securityMiddleware sample_env empty_origin_request) = 200"
proof -
  have h: "headers_get evil_request ''origin'' = Some (str ''https://evil.example'')"
    "headers_get bookings_request ''origin'' = None"
    "headers_get empty_origin_request ''origin'' = Some []"
    by (simp_all add: headers_get_def normalize_def http_space_def evil_request_def
        bookings_request_def empty_origin_request_def str_def)
  have n: "str ''https://evil.example'' \<noteq> []"
    "str ''https://evil.example'' \<notin> set (map str (allowedOrigins sample_env))"
    by (simp_all add: allowedOrigins_def sample_env_def str_def)
  show ?thesis
    using C9_origin_check [where request = evil_request and origin = "str ''https://evil.example''"
                             and e = sample_env]
          C9_origin_check [where request = bookings_request
                             and e = "sample_env\<lparr>ALLOWED_ORIGINS := Some ''https://app.example''\<rparr>"]
          C9_origin_check [where request = empty_origin_request and e = sample_env]
          h n
    by simp
qed

text \<open>
  Claim C7 says that the rate limit is checked before authentication, so that a request
  without a bearer token and with an exhausted rate window gets 429. Such a request gets
  401, and its rate window is not touched.
\<close>

theorem C7_counterexample:
  "\<not> has_bearer_prefix bookings_request \<and>
   \<not> success (fst (rateLimit bookings_request api 10 (rateLimitCache exhausted_state))) \<and>
   withAuth sample_handler sample_env 10 exhausted_state bookings_request =
     (\<lparr>status = 401, body = ErrorJson ''Authentication required'', resp_headers = []\<rparr>,
      exhausted_state)"
  by (simp add: has_bearer_prefix_def withAuth_def authMiddleware_def get_truthy_def headers_get_def normalize_def http_space_def
      bookings_request_def exhausted_state_def empty_state_def json_error_def
      rateLimit_def Let_def lru_get_def lru_stale_def rateLimitCache_options_def)

lemma authMiddleware_no_bearer:
  "\<not> has_bearer_prefix request \<Longrightarrow>
     authMiddleware request now cache = (json_error ''Authentication required'' 401, cache)"
  by (simp add: has_bearer_prefix_def authMiddleware_def split: option.splits)

lemma authMiddleware_bearer:
  "has_bearer_prefix request \<Longrightarrow>
     authMiddleware request now cache =
       (if \<not> success (fst (rateLimit request (route_limit_type request) now cache))
        then (json_error
                (if isAuthEndpoint (pathname request)
                 then ''Too many authentication attempts'' else ''Too many requests'') 429,
              snd (rateLimit request (route_limit_type request) now cache))
        else (\<lparr>status = 200, body = Next, resp_headers = []\<rparr>,
              snd (rateLimit request (route_limit_type request) now cache)))"
  by (simp add: has_bearer_prefix_def authMiddleware_def route_limit_type_def Let_def
      split: option.splits prod.splits)

text \<open>
  Claim C7, amended. In \<open>withAuth\<close> the Authorization header is tested before the rate
  limit: a request whose header is missing or does not start with \<open>Bearer\<close> and a
  space gets 401 \<open>Authentication required\<close> whatever its rate window, and nothing of the
  state changes. A request with that prefix whose rate window is exhausted gets 429, with
  only the rate-limit cache touched. The 401 of the \<open>no_token\<close> event, which a header
  with the prefix and an empty token part gets (two blanks after \<open>Bearer\<close>), comes
  only after the rate-limit step has passed and counted the request.
\<close>

theorem C7_authorization_checked_before_rate_limit:
  "(\<not> has_bearer_prefix request \<longrightarrow>
      withAuth handler e now st request =
        (\<lparr>status = 401, body = ErrorJson ''Authentication required'', resp_headers = []\<rparr>, st)) \<and>
   (has_bearer_prefix request \<and>
    \<not> success (fst (rateLimit request (route_limit_type request) now (rateLimitCache st))) \<longrightarrow>
      status (fst (withAuth handler e now st request)) = 429 \<and>
      snd (withAuth handler e now st request) =
        st\<lparr>rateLimitCache :=
             snd (rateLimit request (route_limit_type request) now (rateLimitCache st))\<rparr>) \<and>
   (has_bearer_prefix request \<and>
    success (fst (rateLimit request (route_limit_type request) now (rateLimitCache st))) \<and>
    bearer_token request = None \<longrightarrow>
      withAuth handler e now st request =
        (\<lparr>status = 401, body = ErrorJson ''Access token required'', resp_headers = []\<rparr>,
         logSecurityEvent ''authentication_failed'' ''no_token''
           (st\<lparr>rateLimitCache :=
                snd (rateLimit request (route_limit_type request) now (rateLimitCache st))\<rparr>)))"
proof -
  let ?rl = "rateLimit request (route_limit_type request) now (rateLimitCache st)"
  have a: "withAuth handler e now st request =
      (\<lparr>status = 401, body = ErrorJson ''Authentication required'', resp_headers = []\<rparr>, st)"
    if "\<not> has_bearer_prefix request"
    by (simp add: withAuth_def authMiddleware_no_bearer [OF that] json_error_def)
  have b: "status (fst (withAuth handler e now st request)) = 429 \<and>
      snd (withAuth handler e now st request) = st\<lparr>rateLimitCache := snd ?rl\<rparr>"
    if "has_bearer_prefix request" "\<not> success (fst ?rl)"
    using that(2) by (simp add: withAuth_def authMiddleware_bearer [OF that(1)] json_error_def)
  have c: "withAuth handler e now st request =
      (\<lparr>status = 401, body = ErrorJson ''Access token required'', resp_headers = []\<rparr>,
       logSecurityEvent ''authentication_failed'' ''no_token'' (st\<lparr>rateLimitCache := snd ?rl\<rparr>))"
    if "has_bearer_prefix request" "success (fst ?rl)" "bearer_token request = None"
    using that(2,3)
    by (simp add: withAuth_def authMiddleware_bearer [OF that(1)] authenticateToken_def
        json_error_def)
  show ?thesis using a b c by blast
qed

lemma rate_key_bookings [simp]:
  "rate_key bookings_request api = str ''api:unknown''"
  "rate_key bearer_request api = str ''api:unknown''"
  "rate_key blank_token_request api = str ''api:unknown''"
  by (simp_all add: rate_key_def getClientIP_def get_truthy_def headers_get_def normalize_def http_space_def bookings_request_def
      bearer_request_def blank_token_request_def str_def)

theorem C7_authorization_checked_before_rate_limit_witness:
  "withAuth sample_handler sample_env 10 exhausted_state bookings_request =
     (\<lparr>status = 401, body = ErrorJson ''Authentication required'', resp_headers = []\<rparr>,
      exhausted_state) \<and>
   status (fst (withAuth sample_handler sample_env 10 exhausted_state bearer_request)) = 429 \<and>
   withAuth sample_handler sample_env 10 empty_state blank_token_request =
     (\<lparr>status = 401, body = ErrorJson ''Access token required'', resp_headers = []\<rparr>,
      empty_state
        \<lparr>rateLimitCache := [(str ''api:unknown'', \<lparr>count = 1, resetTime = 900010\<rparr>, 10)],
         securityLog := [(''authentication_failed'', ''no_token'')]\<rparr>)"
proof -
  have p1: "\<not> has_bearer_prefix bookings_request"
    by (simp add: has_bearer_prefix_def get_truthy_def headers_get_def normalize_def http_space_def bookings_request_def)
  have p2: "has_bearer_prefix bearer_request"
    by (simp add: has_bearer_prefix_def get_truthy_def headers_get_def normalize_def
        http_space_def bearer_request_def sample_access_token_def str_def)
  have p3: "has_bearer_prefix blank_token_request"
    by (simp add: has_bearer_prefix_def get_truthy_def headers_get_def normalize_def http_space_def blank_token_request_def str_def)
  have t2: "route_limit_type bearer_request = api"
    by (simp add: route_limit_type_def isAuthEndpoint_def bearer_request_def)
  have t3: "route_limit_type blank_token_request = api"
    by (simp add: route_limit_type_def isAuthEndpoint_def blank_token_request_def)
  have r2: "\<not> success (fst (rateLimit bearer_request api 10 (rateLimitCache exhausted_state)))"
    by (simp add: rateLimit_def Let_def exhausted_state_def empty_state_def lru_get_def
        lru_stale_def rateLimitCache_options_def)
  have r3: "rateLimit blank_token_request api 10 [] =
      (\<lparr>success = True, message = None, headers = None\<rparr>,
       [(str ''api:unknown'', \<lparr>count = 1, resetTime = 900010\<rparr>, 10)])"
    by (simp add: rateLimit_def Let_def lru_get_def lru_set_def)
  have b3: "bearer_token blank_token_request = None"
    by (simp add: bearer_token_def get_truthy_def headers_get_def normalize_def http_space_def blank_token_request_def str_def split1_def)
  show ?thesis
    using C7_authorization_checked_before_rate_limit
            [where request = bookings_request and handler = sample_handler and e = sample_env
               and now = 10 and st = exhausted_state]
          C7_authorization_checked_before_rate_limit
            [where request = bearer_request and handler = sample_handler and e = sample_env
               and now = 10 and st = exhausted_state]
          C7_authorization_checked_before_rate_limit
            [where request = blank_token_request and handler = sample_handler
               and e = sample_env and now = 10 and st = empty_state]
    by (simp add: p1 p2 p3 t2 t3 r2 r3 b3 logSecurityEvent_def empty_state_def)
qed

section \<open>Properties of the refresh route\<close>

lemma verifyRefreshToken_rateLimitCache [simp]:
  "verifyRefreshToken e now (st\<lparr>rateLimitCache := c\<rparr>) tok = verifyRefreshToken e now st tok"
  by (simp add: verifyRefreshToken_def split: option.splits)

lemma GETHandler_forbidden:
  "\<not> validateOrigin e request \<Longrightarrow>
     GETHandler e f tid now st request = (json_error ''Invalid origin'' 403, st)"
  by (simp add: GETHandler_def securityMiddleware_def json_error_def)

lemma GETHandler_rate_limited:
  "validateOrigin e request \<Longrightarrow>
   \<not> success (fst (rateLimit request auth now (rateLimitCache st))) \<Longrightarrow>
     GETHandler e f tid now st request =
       (json_error ''Too many refresh attempts. Please try again later.'' 429,
        logSecurityEvent ''rate_limit_exceeded'' []
          (st\<lparr>rateLimitCache := snd (rateLimit request auth now (rateLimitCache st))\<rparr>))"
  by (simp add: GETHandler_def securityMiddleware_def Let_def split_def)

lemma GETHandler_admitted:
  assumes "validateOrigin e request"
    and "success (fst (rateLimit request auth now (rateLimitCache st)))"
  shows "GETHandler e f tid now st request =
     (let st1 = st\<lparr>rateLimitCache := snd (rateLimit request auth now (rateLimitCache st))\<rparr>
      in case get_truthy request ''x-refresh-token'' of
           None \<Rightarrow>
             (json_error ''Refresh token required'' 401,
              logSecurityEvent ''refresh_token_missing'' [] st1)
         | Some refreshToken \<Rightarrow>
             (case verifyRefreshToken e now st refreshToken of
                Inl RefreshTokenBlacklistedError \<Rightarrow>
                  (json_error ''Refresh token has been revoked. Please login again.'' 401,
                   logSecurityEvent ''refresh_token_revoked'' [] st1)
              | Inl TokenExpiredError \<Rightarrow>
                  (json_error ''Refresh token has expired. Please login again.'' 401,
                   logSecurityEvent ''refresh_token_expired'' [] st1)
              | Inl JsonWebTokenError \<Rightarrow>
                  (json_error ''Invalid refresh token'' 401,
                   logSecurityEvent ''refresh_token_invalid'' [] st1)
              | Inl err \<Rightarrow> internal_error st1
              | Inr user \<Rightarrow>
                  (case f (userId (signed_payload user)) of
                     Inl err \<Rightarrow> internal_error st1
                   | Inr None \<Rightarrow>
                       (json_error ''Invalid refresh token'' 401,
                        logSecurityEvent ''refresh_user_not_found'' [] st1)
                   | Inr (Some userDoc) \<Rightarrow>
                       (case generateTokenPair e now tid
                               (userId (signed_payload user)) (doc_email userDoc) of
                          Inl err \<Rightarrow> internal_error (blacklistRefreshToken now st1 refreshToken)
                        | Inr (accessToken, newRefreshToken) \<Rightarrow>
                            (\<lparr>status = 200,
                              body = TokensJson accessToken newRefreshToken,
                              resp_headers =
                                (case headers (fst (rateLimit request auth now (rateLimitCache st))) of
                                   None \<Rightarrow> []
                                 | Some hs \<Rightarrow> hs)\<rparr>,
                             logSecurityEvent ''token_refreshed'' []
                               (blacklistRefreshToken now st1 refreshToken))))))"
  using assms
  by (simp add: GETHandler_def securityMiddleware_def Let_def split_def
      cong: option.case_cong sum.case_cong error.case_cong)

lemma GETHandler_access_set:
  "blacklistedTokens (snd (GETHandler e f tid now st request)) = blacklistedTokens st"
proof (cases "admitted e now st request")
  case True
  then show ?thesis
    by (simp add: admitted_def GETHandler_admitted Let_def internal_error_def
        logSecurityEvent_def blacklistRefreshToken_def
        split: option.splits sum.splits error.splits prod.splits)
next
  case False
  then show ?thesis
    by (cases "validateOrigin e request")
       (simp_all add: admitted_def GETHandler_forbidden GETHandler_rate_limited
          logSecurityEvent_def)
qed

lemma GETHandler_refresh_set:
  "blacklistedRefreshTokens (snd (GETHandler e f tid now st request)) =
     (if admitted e now st request then
        (case refresh_lookup e f now st request of
           None \<Rightarrow> blacklistedRefreshTokens st
         | Some (tok, user, doc) \<Rightarrow>
             lru_set blacklistedRefreshTokens_options now (blacklistedRefreshTokens st) tok True)
      else blacklistedRefreshTokens st)"
proof (cases "admitted e now st request")
  case True
  then show ?thesis
    by (simp add: admitted_def GETHandler_admitted refresh_lookup_def Let_def
        internal_error_def logSecurityEvent_def blacklistRefreshToken_def
        split: option.splits sum.splits error.splits prod.splits)
next
  case False
  then show ?thesis
    by (cases "validateOrigin e request")
       (simp_all add: admitted_def GETHandler_forbidden GETHandler_rate_limited
          logSecurityEvent_def)
qed

lemma GETHandler_success:
  assumes "status (fst (GETHandler e f tid now st request)) = 200"
  shows "admitted e now st request \<and>
         (\<exists>tok user doc a r.
            refresh_lookup e f now st request = Some (tok, user, doc) \<and>
            generateTokenPair e now tid (userId (signed_payload user)) (doc_email doc) = Inr (a, r) \<and>
            body (fst (GETHandler e f tid now st request)) = TokensJson a r)"
proof (cases "admitted e now st request")
  case True
  with assms show ?thesis
    by (auto simp: admitted_def GETHandler_admitted refresh_lookup_def Let_def
        internal_error_def json_error_def
        split: option.splits sum.splits error.splits prod.splits)
next
  case False
  with assms show ?thesis
    by (cases "validateOrigin e request")
       (simp_all add: admitted_def GETHandler_forbidden GETHandler_rate_limited json_error_def)
qed



lemma refresh_lookup_Some:
  assumes "refresh_lookup e f now st request = Some (tok, user, doc)"
  shows "get_truthy request ''x-refresh-token'' = Some tok"
    and "verifyRefreshToken e now st tok = Inr user"
    and "f (userId (signed_payload user)) = Inr (Some doc)"
  using assms
  by (auto simp: refresh_lookup_def split: option.splits sum.splits)

lemma verifyRefreshToken_Inr:
  assumes "verifyRefreshToken e now st tok = Inr user"
  obtains rs where "configured (JWT_REFRESH_SECRET e) = Some rs"
  using assms by (auto simp: verifyRefreshToken_def split: option.splits)

lemma rate_key_refresh [simp]:
  "rate_key (refresh_request token) auth = str ''auth:unknown''"
  "rate_key anonymous_request auth = str ''auth:unknown''"
  by (simp_all add: rate_key_def getClientIP_def get_truthy_def headers_get_def normalize_def http_space_def refresh_request_def
      anonymous_request_def str_def)

lemma validateOrigin_refresh [simp]:
  "validateOrigin e (refresh_request token)" "validateOrigin e anonymous_request"
  by (simp_all add: validateOrigin_def get_truthy_def headers_get_def normalize_def http_space_def refresh_request_def anonymous_request_def)

lemma rateLimit_first_refresh:
  "rateLimit (refresh_request token) auth 1000 [] =
     (\<lparr>success = True, message = None, headers = None\<rparr>,
      [(str ''auth:unknown'', \<lparr>count = 1, resetTime = 901000\<rparr>, 1000)])"
  "rateLimit anonymous_request auth 1000 [] =
     (\<lparr>success = True, message = None, headers = None\<rparr>,
      [(str ''auth:unknown'', \<lparr>count = 1, resetTime = 901000\<rparr>, 1000)])"
  by (simp_all add: rateLimit_def Let_def lru_get_def lru_set_def)

lemma empty_state_fields:
  "rateLimitCache empty_state = []" "blacklistedTokens empty_state = []"
  "blacklistedRefreshTokens empty_state = []" "securityLog empty_state = []"
  by (simp_all add: empty_state_def)

lemma first_refresh:
  "GETHandler sample_env sample_findUserById ''t2'' 1000 empty_state
       (refresh_request old_refresh_token) =
     (\<lparr>status = 200,
       body = TokensJson [Jws (JWTPayload ''u1'' ''a@example.com'' None) 1 901 ''access-secret'']
                new_refresh_token,
       resp_headers = []\<rparr>,
      rotated_state)"
proof -
  have g: "get_truthy (refresh_request old_refresh_token) ''x-refresh-token'' = Some old_refresh_token"
    by (simp add: get_truthy_def headers_get_def normalize_def http_space_def refresh_request_def old_refresh_token_def)
  have v: "verifyRefreshToken sample_env 1000 empty_state old_refresh_token =
      Inr \<lparr>signed_payload = RefreshTokenPayload ''u1'' ''t1'', iat = 0, exp = 604800\<rparr>"
    by (simp add: verifyRefreshToken_def sample_env_def configured_def empty_state_def
        lru_has_def old_refresh_token_def)
  have p: "generateTokenPair sample_env 1000 ''t2'' ''u1'' ''a@example.com'' =
      Inr ([Jws (JWTPayload ''u1'' ''a@example.com'' None) 1 901 ''access-secret''],
           new_refresh_token)"
    by (simp add: generateTokenPair_def generateAccessToken_def generateRefreshToken_def
        sample_env_def configured_def jwt_sign_def access_expiresIn_def refresh_expiresIn_def
        new_refresh_token_def)
  have a: "success (fst (rateLimit (refresh_request old_refresh_token) auth 1000
               (rateLimitCache empty_state)))"
    by (simp add: empty_state_def rateLimit_first_refresh)
  have "GETHandler sample_env sample_findUserById ''t2'' 1000 empty_state
          (refresh_request old_refresh_token) =
        (\<lparr>status = 200,
          body = TokensJson [Jws (JWTPayload ''u1'' ''a@example.com'' None) 1 901 ''access-secret'']
                   new_refresh_token,
          resp_headers = []\<rparr>,
         logSecurityEvent ''token_refreshed'' []
           (blacklistRefreshToken 1000
              (empty_state\<lparr>rateLimitCache :=
                 [(str ''auth:unknown'', \<lparr>count = 1, resetTime = 901000\<rparr>, 1000)]\<rparr>)
              old_refresh_token))"
    by (simp add: GETHandler_admitted [OF validateOrigin_refresh(1) a] g v p Let_def
        sample_findUserById_def empty_state_fields rateLimit_first_refresh)
  then show ?thesis
    by (simp add: blacklistRefreshToken_def logSecurityEvent_def rotated_state_def
        empty_state_def lru_set_def)
qed

lemma GETHandler_rotates:
  assumes "admitted e now st request"
    and "refresh_lookup e f now st request = Some (tok, user, doc)"
    and "configured (JWT_SECRET e) = Some s"
  shows "status (fst (GETHandler e f tid now st request)) = 200"
proof -
  note l = refresh_lookup_Some [OF assms(2)]
  from l(2) obtain rs where rs: "configured (JWT_REFRESH_SECRET e) = Some rs"
    by (rule verifyRefreshToken_Inr)
  have p: "\<exists>a r. generateTokenPair e now tid (userId (signed_payload user)) (doc_email doc) = Inr (a, r)"
    by (simp add: generateTokenPair_def generateAccessToken_def generateRefreshToken_def
        assms(3) rs)
  from assms(1) have "validateOrigin e request"
    and "success (fst (rateLimit request auth now (rateLimitCache st)))"
    by (simp_all add: admitted_def)
  from GETHandler_admitted [OF this] p show ?thesis
    by (auto simp: l Let_def)
qed

text \<open>
  Claim C10. The refresh route never touches the access blacklist. It leaves the refresh
  blacklist as it was when the refresh token is missing, when its verification fails
  (revoked, expired, malformed or any other error) and when the user is not found; with
  the access secret configured, so does every attempt that is not answered with 200.
  The refresh blacklist changes only where verification and user lookup both succeeded,
  and there the change is the insertion of the submitted token, made before the new
  pair is issued and so whatever the issuing does.
\<close>

theorem C10_revocation_only_on_rotation:
  "blacklistedTokens (snd (GETHandler e f tid now st request)) = blacklistedTokens st \<and>
   (get_truthy request ''x-refresh-token'' = None \<longrightarrow>
      blacklistedRefreshTokens (snd (GETHandler e f tid now st request)) =
        blacklistedRefreshTokens st) \<and>
   (get_truthy request ''x-refresh-token'' = Some tok \<and>
    verifyRefreshToken e now st tok = Inl err \<longrightarrow>
      blacklistedRefreshTokens (snd (GETHandler e f tid now st request)) =
        blacklistedRefreshTokens st) \<and>
   (get_truthy request ''x-refresh-token'' = Some tok \<and>
    verifyRefreshToken e now st tok = Inr user \<and>
    f (userId (signed_payload user)) = Inr None \<longrightarrow>
      blacklistedRefreshTokens (snd (GETHandler e f tid now st request)) =
        blacklistedRefreshTokens st) \<and>
   (blacklistedRefreshTokens (snd (GETHandler e f tid now st request)) \<noteq>
      blacklistedRefreshTokens st \<longrightarrow>
      (\<exists>tok' user' doc'.
         get_truthy request ''x-refresh-token'' = Some tok' \<and>
         verifyRefreshToken e now st tok' = Inr user' \<and>
         f (userId (signed_payload user')) = Inr (Some doc') \<and>
         blacklistedRefreshTokens (snd (GETHandler e f tid now st request)) =
           lru_set blacklistedRefreshTokens_options now (blacklistedRefreshTokens st) tok' True)) \<and>
   (admitted e now st request \<and>
    get_truthy request ''x-refresh-token'' = Some tok \<and>
    verifyRefreshToken e now st tok = Inr user \<and>
    f (userId (signed_payload user)) = Inr (Some doc) \<longrightarrow>
      blacklistedRefreshTokens (snd (GETHandler e f tid now st request)) =
        lru_set blacklistedRefreshTokens_options now (blacklistedRefreshTokens st) tok True) \<and>
   (configured (JWT_SECRET e) \<noteq> None \<and>
    status (fst (GETHandler e f tid now st request)) \<noteq> 200 \<longrightarrow>
      blacklistedRefreshTokens (snd (GETHandler e f tid now st request)) =
        blacklistedRefreshTokens st)"
proof -
  let ?set = "blacklistedRefreshTokens (snd (GETHandler e f tid now st request))"
  note rs = GETHandler_refresh_set [of e f tid now st request]
  have missing: "?set = blacklistedRefreshTokens st"
    if "get_truthy request ''x-refresh-token'' = None"
    using that by (simp add: rs refresh_lookup_def)
  have invalid: "?set = blacklistedRefreshTokens st"
    if "get_truthy request ''x-refresh-token'' = Some tok" "verifyRefreshToken e now st tok = Inl err"
    using that by (simp add: rs refresh_lookup_def)
  have unknown: "?set = blacklistedRefreshTokens st"
    if "get_truthy request ''x-refresh-token'' = Some tok" "verifyRefreshToken e now st tok = Inr user"
      "f (userId (signed_payload user)) = Inr None"
    using that by (simp add: rs refresh_lookup_def)
  have only: "\<exists>tok' user' doc'.
         get_truthy request ''x-refresh-token'' = Some tok' \<and>
         verifyRefreshToken e now st tok' = Inr user' \<and>
         f (userId (signed_payload user')) = Inr (Some doc') \<and>
         ?set = lru_set blacklistedRefreshTokens_options now (blacklistedRefreshTokens st) tok' True"
    if "?set \<noteq> blacklistedRefreshTokens st"
  proof -
    from that rs obtain tok' user' doc'
      where l: "refresh_lookup e f now st request = Some (tok', user', doc')"
        and "admitted e now st request"
      by (auto split: if_splits option.splits)
    then have "?set = lru_set blacklistedRefreshTokens_options now (blacklistedRefreshTokens st) tok' True"
      by (simp add: rs)
    with refresh_lookup_Some [OF l] show ?thesis by blast
  qed
  have rotate: "?set = lru_set blacklistedRefreshTokens_options now (blacklistedRefreshTokens st) tok True"
    if "admitted e now st request" "get_truthy request ''x-refresh-token'' = Some tok"
      "verifyRefreshToken e now st tok = Inr user" "f (userId (signed_payload user)) = Inr (Some doc)"
    using that by (simp add: rs refresh_lookup_def)
  have atomic: "?set = blacklistedRefreshTokens st"
    if "configured (JWT_SECRET e) \<noteq> None" "status (fst (GETHandler e f tid now st request)) \<noteq> 200"
  proof (rule ccontr)
    assume "?set \<noteq> blacklistedRefreshTokens st"
    with rs obtain tok' user' doc'
      where "refresh_lookup e f now st request = Some (tok', user', doc')"
        and "admitted e now st request"
      by (auto split: if_splits option.splits)
    from GETHandler_rotates [OF this(2) this(1)] that show False by auto
  qed
  show ?thesis
    using GETHandler_access_set [of e f tid now st request] missing invalid unknown only rotate
      atomic
    by blast
qed

theorem C10_revocation_only_on_rotation_witness:
  "blacklistedRefreshTokens
     (snd (GETHandler sample_env sample_findUserById ''t2'' 1000 empty_state anonymous_request)) = [] \<and>
   blacklistedRefreshTokens
     (snd (GETHandler sample_env sample_findUserById ''t2'' 1000 empty_state
             (refresh_request (str ''garbage'')))) = [] \<and>
   blacklistedRefreshTokens
     (snd (GETHandler sample_env sample_findUserById ''t2'' 1000 empty_state
             (refresh_request stranger_refresh_token))) = [] \<and>
   blacklistedRefreshTokens
     (snd (GETHandler sample_env sample_findUserById ''t2'' 1000 empty_state
             (refresh_request old_refresh_token))) = [(old_refresh_token, True, 1000)] \<and>
   blacklistedTokens
     (snd (GETHandler sample_env sample_findUserById ''t2'' 1000 empty_state
             (refresh_request old_refresh_token))) = []"
proof -
  have g0: "get_truthy anonymous_request ''x-refresh-token'' = None"
    by (simp add: get_truthy_def headers_get_def normalize_def http_space_def anonymous_request_def)
  have g: "get_truthy (refresh_request (str ''garbage'')) ''x-refresh-token'' = Some (str ''garbage'')"
    "get_truthy (refresh_request stranger_refresh_token) ''x-refresh-token'' =
       Some stranger_refresh_token"
    "get_truthy (refresh_request old_refresh_token) ''x-refresh-token'' = Some old_refresh_token"
    by (simp_all add: get_truthy_def headers_get_def normalize_def http_space_def refresh_request_def str_def stranger_refresh_token_def
        old_refresh_token_def)
  have v1: "verifyRefreshToken sample_env 1000 empty_state (str ''garbage'') = Inl JsonWebTokenError"
    by (simp add: verifyRefreshToken_def sample_env_def configured_def empty_state_def
        lru_has_def str_def)
  have v2: "verifyRefreshToken sample_env 1000 empty_state stranger_refresh_token =
      Inr \<lparr>signed_payload = RefreshTokenPayload ''u9'' ''t1'', iat = 0, exp = 604800\<rparr>"
    by (simp add: verifyRefreshToken_def sample_env_def configured_def empty_state_def
        lru_has_def stranger_refresh_token_def)
  have v3: "verifyRefreshToken sample_env 1000 empty_state old_refresh_token =
      Inr \<lparr>signed_payload = RefreshTokenPayload ''u1'' ''t1'', iat = 0, exp = 604800\<rparr>"
    by (simp add: verifyRefreshToken_def sample_env_def configured_def empty_state_def
        lru_has_def old_refresh_token_def)
  have adm: "admitted sample_env 1000 empty_state (refresh_request old_refresh_token)"
    by (simp add: admitted_def empty_state_fields rateLimit_first_refresh)
  have sec: "configured (JWT_SECRET sample_env) \<noteq> None"
    by (simp add: sample_env_def configured_def)
  have changed: "blacklistedRefreshTokens
     (snd (GETHandler sample_env sample_findUserById ''t2'' 1000 empty_state
             (refresh_request old_refresh_token))) \<noteq> blacklistedRefreshTokens empty_state"
    by (simp add: first_refresh rotated_state_def empty_state_fields)
  have failed: "status (fst (GETHandler sample_env sample_findUserById ''t2'' 1000 empty_state
             anonymous_request)) \<noteq> 200"
    using GETHandler_admitted
            [where e = sample_env and request = anonymous_request and now = 1000
               and st = empty_state and f = sample_findUserById and tid = "''t2''"]
    by (simp add: empty_state_fields rateLimit_first_refresh g0 Let_def json_error_def)
  note A = C10_revocation_only_on_rotation
            [where e = sample_env and f = sample_findUserById and tid = "''t2''" and now = 1000
               and st = empty_state and request = anonymous_request]
  note B = C10_revocation_only_on_rotation
            [where e = sample_env and f = sample_findUserById and tid = "''t2''" and now = 1000
               and st = empty_state and request = "refresh_request (str ''garbage'')"
               and tok = "str ''garbage''" and err = JsonWebTokenError]
  note C = C10_revocation_only_on_rotation
            [where e = sample_env and f = sample_findUserById and tid = "''t2''" and now = 1000
               and st = empty_state and request = "refresh_request stranger_refresh_token"
               and tok = stranger_refresh_token
               and user = "\<lparr>signed_payload = RefreshTokenPayload ''u9'' ''t1'', iat = 0,
                             exp = 604800\<rparr>"]
  note D = C10_revocation_only_on_rotation
            [where e = sample_env and f = sample_findUserById and tid = "''t2''" and now = 1000
               and st = empty_state and request = "refresh_request old_refresh_token"
               and tok = old_refresh_token
               and user = "\<lparr>signed_payload = RefreshTokenPayload ''u1'' ''t1'', iat = 0,
                             exp = 604800\<rparr>"
               and doc = "\<lparr>doc_id = ''u1'', doc_email = ''a@example.com''\<rparr>"]
  have c1: "blacklistedRefreshTokens
     (snd (GETHandler sample_env sample_findUserById ''t2'' 1000 empty_state anonymous_request)) = []"
    using A sec failed by (simp only: empty_state_fields; blast)
  have c2: "blacklistedRefreshTokens
     (snd (GETHandler sample_env sample_findUserById ''t2'' 1000 empty_state
             (refresh_request (str ''garbage'')))) = []"
    using B g(1) v1 by (simp only: empty_state_fields; blast)
  have f3: "sample_findUserById (userId (signed_payload
      \<lparr>signed_payload = RefreshTokenPayload ''u9'' ''t1'', iat = 0, exp = 604800\<rparr>)) = Inr None"
    by (simp add: sample_findUserById_def)
  have c3: "blacklistedRefreshTokens
     (snd (GETHandler sample_env sample_findUserById ''t2'' 1000 empty_state
             (refresh_request stranger_refresh_token))) = []"
    using C g(2) v2 f3 by (simp only: empty_state_fields; blast)
  have f4: "sample_findUserById (userId (signed_payload
      \<lparr>signed_payload = RefreshTokenPayload ''u1'' ''t1'', iat = 0, exp = 604800\<rparr>)) =
      Inr (Some \<lparr>doc_id = ''u1'', doc_email = ''a@example.com''\<rparr>)"
    by (simp add: sample_findUserById_def)
  have c4: "blacklistedRefreshTokens
     (snd (GETHandler sample_env sample_findUserById ''t2'' 1000 empty_state
             (refresh_request old_refresh_token))) =
     lru_set blacklistedRefreshTokens_options 1000 [] old_refresh_token True"
    using D g(3) v3 f4 adm changed by (simp only: empty_state_fields; blast)
  have c5: "blacklistedTokens
     (snd (GETHandler sample_env sample_findUserById ''t2'' 1000 empty_state
             (refresh_request old_refresh_token))) = []"
    using D by (simp only: empty_state_fields)
  show ?thesis
    using c1 c2 c3 c4 c5 by (simp add: lru_set_def)
qed

















end
